theory Spec2Isabelle
  imports Main
begin

section \<open>Python values, exceptions and effects\<close>

text \<open>
  The notebooks are Python.  The values that flow through the agent are the values that
  \<^verbatim>\<open>json.loads\<close> produces (None, booleans, integers, strings, lists, dictionaries with
  string keys) plus the tuples that \<^verbatim>\<open>basic_calculator\<close> returns.  A Python \<^verbatim>\<open>str\<close> is
  modelled as a list of 8-bit characters, read as the code points 0 to 255; a dictionary is
  an association list in insertion order with distinct keys.  Floating point numbers are
  not part of the model: every computation that would produce or consume one has the
  result \<open>Unmodelled\<close>, and so has every computation that depends on a limit of the
  interpreter (the recursion limit, the limit on the number of digits of an integer that is
  converted to or from text).
\<close>

datatype pyval =
    PNone
  | PBool bool
  | PInt int
  | PStr string
  | PList "pyval list"
  | PDict "(string \<times> pyval) list"
  | PTuple "pyval list"

text \<open>
  Exceptions are told apart by the classes that the \<^verbatim>\<open>except\<close> clauses of the notebooks
  name.  \<open>OtherException\<close> is any other class derived from \<^verbatim>\<open>Exception\<close>;
  \<open>NonException\<close> is a class derived from \<^verbatim>\<open>BaseException\<close> only (\<^verbatim>\<open>KeyboardInterrupt\<close>,
  \<^verbatim>\<open>SystemExit\<close>), which \<^verbatim>\<open>except Exception\<close> does not catch.  The string is \<^verbatim>\<open>str(e)\<close>.
\<close>

datatype exn_class =
    JSONDecodeError
  | KeyError
  | TypeError
  | AttributeError
  | ZeroDivisionError
  | RequestException
  | OtherException
  | NonException

datatype pyexn = Exn exn_class string

fun exn_class_of :: "pyexn \<Rightarrow> exn_class" where
  "exn_class_of (Exn c m) = c"

fun exn_str :: "pyexn \<Rightarrow> string" where
  "exn_str (Exn c m) = m"

definition is_Exception :: "pyexn \<Rightarrow> bool" where
  "is_Exception e = (exn_class_of e \<noteq> NonException)"

datatype 'a result = Ret 'a | Raise pyexn | Unmodelled

definition is_Ret :: "'a result \<Rightarrow> bool" where
  "is_Ret r = (case r of Ret x \<Rightarrow> True | _ \<Rightarrow> False)"

text \<open>
  What a function does besides returning: it calls a tool, it prints a line, or it prints
  a line through \<^verbatim>\<open>termcolor.colored\<close>.
\<close>

datatype colour = Cyan | Red

datatype event =
    Call string pyval
  | Print string
  | PrintColored string colour

type_synonym 'a io = "event list \<times> 'a result"

section \<open>Strings\<close>

abbreviation nl :: string where "nl \<equiv> [CHR 0x0A]"
abbreviation sq :: string where "sq \<equiv> [CHR 0x27]"
abbreviation dq :: string where "dq \<equiv> [CHR 0x22]"
abbreviation bs :: string where "bs \<equiv> [CHR 0x5C]"

fun intercalate :: "string \<Rightarrow> string list \<Rightarrow> string" where
  "intercalate sep [] = []"
| "intercalate sep [x] = x"
| "intercalate sep (x # y # ys) = x @ sep @ intercalate sep (y # ys)"

definition digit_char :: "nat \<Rightarrow> char" where
  "digit_char n = ''0123456789abcdef'' ! n"

fun show_nat :: "nat \<Rightarrow> string" where
  "show_nat n = (if n < 10 then [digit_char n] else show_nat (n div 10) @ [digit_char (n mod 10)])"

declare show_nat.simps [simp del]

definition show_int :: "int \<Rightarrow> string" where
  "show_int i = (if i < 0 then ''-'' @ show_nat (nat (- i)) else show_nat (nat i))"

definition hex2 :: "char \<Rightarrow> string" where
  "hex2 c = [digit_char (of_char c div 16), digit_char (of_char c mod 16)]"

text \<open>\<^verbatim>\<open>repr\<close> of a string, for the code points 0 to 255.\<close>

definition printable :: "char \<Rightarrow> bool" where
  "printable c = (let n = (of_char c :: nat) in (32 \<le> n \<and> n < 127) \<or> (161 \<le> n \<and> n \<noteq> 173))"

definition repr_char :: "char \<Rightarrow> char \<Rightarrow> string" where
  "repr_char quote c =
     (if c = quote \<or> c = CHR 0x5C then [CHR 0x5C, c]
      else if c = CHR 0x09 then bs @ ''t''
      else if c = CHR 0x0A then bs @ ''n''
      else if c = CHR 0x0D then bs @ ''r''
      else if printable c then [c]
      else bs @ ''x'' @ hex2 c)"

definition repr_str :: "string \<Rightarrow> string" where
  "repr_str s =
     (let quote = (if CHR 0x27 \<in> set s \<and> CHR 0x22 \<notin> set s then CHR 0x22 else CHR 0x27)
      in [quote] @ concat (map (repr_char quote) s) @ [quote])"

fun py_repr :: "pyval \<Rightarrow> string" where
  "py_repr PNone = ''None''"
| "py_repr (PBool b) = (if b then ''True'' else ''False'')"
| "py_repr (PInt i) = show_int i"
| "py_repr (PStr s) = repr_str s"
| "py_repr (PList vs) = ''['' @ intercalate '', '' (map py_repr vs) @ '']''"
| "py_repr (PDict kvs) =
     ''{'' @ intercalate '', '' (map (\<lambda>kv. repr_str (fst kv) @ '': '' @ py_repr (snd kv)) kvs) @ ''}''"
| "py_repr (PTuple vs) =
     (case vs of
        [v] \<Rightarrow> ''('' @ py_repr v @ '',)''
      | _ \<Rightarrow> ''('' @ intercalate '', '' (map py_repr vs) @ '')'')"

text \<open>\<^verbatim>\<open>str(v)\<close>, which is also what an f-string substitutes for \<^verbatim>\<open>{v}\<close>.\<close>

fun py_str :: "pyval \<Rightarrow> string" where
  "py_str (PStr s) = s"
| "py_str v = py_repr v"

text \<open>
  CPython refuses to convert an integer of more than 4300 digits to text.  \<open>str_defined v\<close>
  says that \<open>v\<close> holds no such integer, so that \<open>py_str v\<close> is what \<^verbatim>\<open>str(v)\<close> returns.
\<close>

definition int_digits_ok :: "int \<Rightarrow> bool" where
  "int_digits_ok i = (length (show_nat (nat \<bar>i\<bar>)) \<le> 4300)"

fun str_defined :: "pyval \<Rightarrow> bool" where
  "str_defined PNone = True"
| "str_defined (PBool b) = True"
| "str_defined (PInt i) = int_digits_ok i"
| "str_defined (PStr s) = True"
| "str_defined (PList vs) = list_all str_defined vs"
| "str_defined (PDict kvs) = list_all (\<lambda>kv. str_defined (snd kv)) kvs"
| "str_defined (PTuple vs) = list_all str_defined vs"

definition type_name :: "pyval \<Rightarrow> string" where
  "type_name v =
     (case v of
        PNone \<Rightarrow> ''NoneType''
      | PBool b \<Rightarrow> ''bool''
      | PInt i \<Rightarrow> ''int''
      | PStr s \<Rightarrow> ''str''
      | PList vs \<Rightarrow> ''list''
      | PDict kvs \<Rightarrow> ''dict''
      | PTuple vs \<Rightarrow> ''tuple'')"

text \<open>\<^verbatim>\<open>s.replace(a, b)\<close> for one-character strings \<open>a\<close> and \<open>b\<close>.\<close>

definition py_replace :: "char \<Rightarrow> char \<Rightarrow> string \<Rightarrow> string" where
  "py_replace a b s = map (\<lambda>c. if c = a then b else c) s"

text \<open>\<^verbatim>\<open>str.isspace\<close> on the code points 0 to 255.\<close>

definition is_space :: "char \<Rightarrow> bool" where
  "is_space c = (let n = (of_char c :: nat) in (9 \<le> n \<and> n \<le> 13) \<or> (28 \<le> n \<and> n \<le> 32) \<or> n = 133 \<or> n = 160)"

definition strip_where :: "(char \<Rightarrow> bool) \<Rightarrow> string \<Rightarrow> string" where
  "strip_where p s = rev (dropWhile p (rev (dropWhile p s)))"

text \<open>\<^verbatim>\<open>s.strip()\<close> and \<^verbatim>\<open>s.strip(chars)\<close>.\<close>

definition py_strip :: "string \<Rightarrow> string" where
  "py_strip s = strip_where is_space s"

definition py_strip_chars :: "string \<Rightarrow> string \<Rightarrow> string" where
  "py_strip_chars chars s = strip_where (\<lambda>c. c \<in> set chars) s"

definition startswith :: "string \<Rightarrow> string \<Rightarrow> bool" where
  "startswith sub s = (take (length sub) s = sub)"

text \<open>\<^verbatim>\<open>sub in s\<close>.\<close>

fun contains :: "string \<Rightarrow> string \<Rightarrow> bool" where
  "contains sub [] = (sub = [])"
| "contains sub (c # cs) = (startswith sub (c # cs) \<or> contains sub cs)"

text \<open>
  \<^verbatim>\<open>s.split(sep)\<close> and \<^verbatim>\<open>s.split(sep, 1)\<close>, for a separator that is not empty (every
  separator in the notebooks is a literal).
\<close>

fun split_aux :: "string \<Rightarrow> string \<Rightarrow> string \<Rightarrow> string list" where
  "split_aux sep acc [] = [rev acc]"
| "split_aux sep acc (c # cs) =
     (if startswith sep (c # cs) then rev acc # split_aux sep [] (drop (length sep - 1) cs)
      else split_aux sep (c # acc) cs)"

definition py_split :: "string \<Rightarrow> string \<Rightarrow> string list" where
  "py_split sep s = split_aux sep [] s"

fun split_once :: "string \<Rightarrow> string \<Rightarrow> (string \<times> string) option" where
  "split_once sep [] = None"
| "split_once sep (c # cs) =
     (if startswith sep (c # cs) then Some ([], drop (length sep - 1) cs)
      else map_option (\<lambda>ab. (c # fst ab, snd ab)) (split_once sep cs))"

definition py_split1 :: "string \<Rightarrow> string \<Rightarrow> string list" where
  "py_split1 sep s = (case split_once sep s of None \<Rightarrow> [s] | Some ab \<Rightarrow> [fst ab, snd ab])"

text \<open>\<^verbatim>\<open>xs[i]\<close> for a list and an index that is not negative.\<close>

definition py_index :: "'a list \<Rightarrow> nat \<Rightarrow> 'a result" where
  "py_index xs i = (if i < length xs then Ret (xs ! i) else Raise (Exn OtherException ''list index out of range''))"

section \<open>Tools and dispatch\<close>

text \<open>
  A tool is a Python function: its \<^verbatim>\<open>__name__\<close>, its \<^verbatim>\<open>__doc__\<close> (absent when the function
  has no documentation) and what a call with one argument does.
\<close>

record tool =
  tool_name :: string
  tool_doc :: "string option"
  tool_call :: "pyval \<Rightarrow> pyval result"

text \<open>\<^verbatim>\<open>d[key] = value\<close>: an existing key keeps its place.\<close>

fun dict_set :: "(string \<times> 'v) list \<Rightarrow> string \<Rightarrow> 'v \<Rightarrow> (string \<times> 'v) list" where
  "dict_set [] k v = [(k, v)]"
| "dict_set (kv # kvs) k v = (if fst kv = k then (k, v) # kvs else kv # dict_set kvs k v)"

text \<open>\<^verbatim>\<open>response.get(key)\<close>: only a dictionary has the method.\<close>

definition py_get :: "pyval \<Rightarrow> string \<Rightarrow> pyval result" where
  "py_get v k =
     (case v of
        PDict d \<Rightarrow> Ret (case map_of d k of Some x \<Rightarrow> x | None \<Rightarrow> PNone)
      | _ \<Rightarrow> Raise (Exn AttributeError (sq @ type_name v @ sq @ '' object has no attribute '' @ sq @ ''get'' @ sq)))"

text \<open>
  The function \<^verbatim>\<open>execute_tool(response, tools)\<close> of the Mistral notebook.  A tool named by
  \<^verbatim>\<open>tool_choice\<close> is called and its result printed; when the loop finds no such tool,
  \<^verbatim>\<open>tool_input\<close> is printed.  An exception of the tool is not caught.
\<close>

fun execute_tool_loop :: "tool list \<Rightarrow> pyval \<Rightarrow> pyval \<Rightarrow> pyval io" where
  "execute_tool_loop [] tool_choice tool_input =
     (if str_defined tool_input then ([PrintColored (py_str tool_input) Cyan], Ret PNone)
      else ([], Unmodelled))"
| "execute_tool_loop (t # ts) tool_choice tool_input =
     (if PStr (tool_name t) = tool_choice then
        (case tool_call t tool_input of
           Ret r \<Rightarrow>
             (if str_defined r
              then ([Call (tool_name t) tool_input, PrintColored (py_str r) Cyan], Ret PNone)
              else ([Call (tool_name t) tool_input], Unmodelled))
         | Raise e \<Rightarrow> ([Call (tool_name t) tool_input], Raise e)
         | Unmodelled \<Rightarrow> ([Call (tool_name t) tool_input], Unmodelled))
      else execute_tool_loop ts tool_choice tool_input)"

definition execute_tool :: "pyval \<Rightarrow> tool list \<Rightarrow> pyval io" where
  "execute_tool response ts =
     (case py_get response ''tool_choice'' of
        Raise e \<Rightarrow> ([], Raise e)
      | Unmodelled \<Rightarrow> ([], Unmodelled)
      | Ret tool_choice \<Rightarrow>
          (case py_get response ''tool_input'' of
             Raise e \<Rightarrow> ([], Raise e)
           | Unmodelled \<Rightarrow> ([], Unmodelled)
           | Ret tool_input \<Rightarrow> execute_tool_loop ts tool_choice tool_input))"

section \<open>The JSON decoder\<close>

text \<open>
  \<^verbatim>\<open>json.loads\<close> of the Python standard library, as its scanner reads a document: the
  same grammar, the same messages, the same positions.  A parser reports an error with the
  number of characters that were still unread where the error is, from which \<open>json_loads\<close>
  computes the position.  A number with a fraction or an exponent, \<^verbatim>\<open>NaN\<close> and
  \<^verbatim>\<open>Infinity\<close> are floating point numbers; an escape can denote a code point
  above 255; an integer of more than 4300 digits is refused by the interpreter; containers
  nested deeper than \<open>max_depth\<close> may reach the recursion limit.  All of these are
  \<open>PUnmodelled\<close>, and so is a parser that runs out of its fuel.
\<close>

datatype 'a pres = POk 'a string | PErr string nat | PUnmodelled

definition json_ws :: "char \<Rightarrow> bool" where
  "json_ws c = (c = CHR 0x20 \<or> c = CHR 0x09 \<or> c = CHR 0x0A \<or> c = CHR 0x0D)"

definition skip_ws :: "string \<Rightarrow> string" where
  "skip_ws s = dropWhile json_ws s"

definition is_digit :: "char \<Rightarrow> bool" where
  "is_digit c = (let n = (of_char c :: nat) in 48 \<le> n \<and> n \<le> 57)"

definition digit_val :: "char \<Rightarrow> int" where
  "digit_val c = of_char c - 48"

definition int_of_digits :: "string \<Rightarrow> int" where
  "int_of_digits ds = foldl (\<lambda>a c. 10 * a + digit_val c) 0 ds"

definition hex_val :: "char \<Rightarrow> nat option" where
  "hex_val c =
     (let n = (of_char c :: nat) in
      if 48 \<le> n \<and> n \<le> 57 then Some (n - 48)
      else if 97 \<le> n \<and> n \<le> 102 then Some (n - 87)
      else if 65 \<le> n \<and> n \<le> 70 then Some (n - 55)
      else None)"

fun hex_digits :: "nat \<Rightarrow> string \<Rightarrow> nat option" where
  "hex_digits a [] = Some a"
| "hex_digits a (c # cs) = (case hex_val c of None \<Rightarrow> None | Some d \<Rightarrow> hex_digits (16 * a + d) cs)"

definition escape_char :: "char \<Rightarrow> char option" where
  "escape_char e =
     (if e = CHR 0x22 then Some (CHR 0x22)
      else if e = CHR 0x5C then Some (CHR 0x5C)
      else if e = CHR ''/'' then Some (CHR ''/'')
      else if e = CHR ''b'' then Some (CHR 0x08)
      else if e = CHR ''f'' then Some (CHR 0x0C)
      else if e = CHR ''n'' then Some (CHR 0x0A)
      else if e = CHR ''r'' then Some (CHR 0x0D)
      else if e = CHR ''t'' then Some (CHR 0x09)
      else None)"

text \<open>
  The characters of a string after its opening quote; \<open>b\<close> is the number of characters
  that were unread at the opening quote.
\<close>

fun scanstring :: "nat \<Rightarrow> string \<Rightarrow> string \<Rightarrow> string pres" where
  "scanstring b acc [] = PErr ''Unterminated string starting at'' b"
| "scanstring b acc (c # cs) =
     (if c = CHR 0x22 then POk (rev acc) cs
      else if c = CHR 0x5C then
        (case cs of
           [] \<Rightarrow> PErr ''Unterminated string starting at'' b
         | e # es \<Rightarrow>
             if e = CHR ''u'' then
               (if length es < 5 then PErr (''Invalid '' @ bs @ ''uXXXX escape'') (length cs)
                else
                  (case hex_digits 0 (take 4 es) of
                     None \<Rightarrow> PErr (''Invalid '' @ bs @ ''uXXXX escape'') (length cs)
                   | Some n \<Rightarrow>
                       if n < 256 then scanstring b (char_of n # acc) (drop 4 es) else PUnmodelled))
             else
               (case escape_char e of
                  None \<Rightarrow> PErr (''Invalid '' @ bs @ ''escape'') (Suc (length cs))
                | Some x \<Rightarrow> scanstring b (x # acc) es))
      else if (of_char c :: nat) \<le> 31 then PErr ''Invalid control character at'' (Suc (length cs))
      else scanstring b (c # acc) cs)"

text \<open>
  A number at the head of \<open>s\<close>: an optional sign, then \<^verbatim>\<open>0\<close> or a digit from 1 to 9 with
  the digits that follow it.
\<close>

definition match_number :: "string \<Rightarrow> pyval pres" where
  "match_number s =
     (let neg = (s \<noteq> [] \<and> hd s = CHR ''-'');
          t = (if neg then tl s else s)
      in if t = [] \<or> \<not> is_digit (hd t) then PErr ''Expecting value'' (length s)
         else
           (let ds = (if hd t = CHR ''0'' then ''0'' else takeWhile is_digit t);
                r = drop (length ds) t;
                frac = (case r of c # d # r' \<Rightarrow> c = CHR ''.'' \<and> is_digit d | _ \<Rightarrow> False);
                ex = (case r of
                        c # d # r' \<Rightarrow>
                          (c = CHR ''e'' \<or> c = CHR ''E'') \<and>
                          (is_digit d \<or>
                           ((d = CHR ''+'' \<or> d = CHR ''-'') \<and> r' \<noteq> [] \<and> is_digit (hd r')))
                      | _ \<Rightarrow> False)
            in if frac \<or> ex \<or> 4300 < length ds then PUnmodelled
               else POk (PInt (if neg then - int_of_digits ds else int_of_digits ds)) r))"

definition max_depth :: nat where
  "max_depth = 100"

fun scan_once :: "nat \<Rightarrow> nat \<Rightarrow> string \<Rightarrow> pyval pres"
  and parse_object :: "nat \<Rightarrow> nat \<Rightarrow> (string \<times> pyval) list \<Rightarrow> string \<Rightarrow> pyval pres"
  and parse_array :: "nat \<Rightarrow> nat \<Rightarrow> pyval list \<Rightarrow> string \<Rightarrow> pyval pres"
where
  "scan_once 0 d s = PUnmodelled"
| "scan_once (Suc n) d s =
     (case s of
        [] \<Rightarrow> PErr ''Expecting value'' 0
      | c # cs \<Rightarrow>
          if c = CHR 0x22 then
            (case scanstring (length s) [] cs of
               POk str r \<Rightarrow> POk (PStr str) r
             | PErr m k \<Rightarrow> PErr m k
             | PUnmodelled \<Rightarrow> PUnmodelled)
          else if c = CHR ''{'' then
            (case d of
               0 \<Rightarrow> PUnmodelled
             | Suc d' \<Rightarrow>
                 (case skip_ws cs of
                    [] \<Rightarrow> parse_object n d' [] []
                  | x # r \<Rightarrow> if x = CHR ''}'' then POk (PDict []) r else parse_object n d' [] (x # r)))
          else if c = CHR ''['' then
            (case d of
               0 \<Rightarrow> PUnmodelled
             | Suc d' \<Rightarrow>
                 (case skip_ws cs of
                    [] \<Rightarrow> parse_array n d' [] []
                  | x # r \<Rightarrow> if x = CHR '']'' then POk (PList []) r else parse_array n d' [] (x # r)))
          else if startswith ''null'' s then POk PNone (drop 4 s)
          else if startswith ''true'' s then POk (PBool True) (drop 4 s)
          else if startswith ''false'' s then POk (PBool False) (drop 5 s)
          else if startswith ''NaN'' s \<or> startswith ''Infinity'' s \<or> startswith ''-Infinity'' s
            then PUnmodelled
          else match_number s)"
| "parse_object 0 d acc s = PUnmodelled"
| "parse_object (Suc n) d acc s =
     (case s of
        [] \<Rightarrow> PErr ''Expecting property name enclosed in double quotes'' 0
      | c # cs \<Rightarrow>
          if c \<noteq> CHR 0x22 then PErr ''Expecting property name enclosed in double quotes'' (length s)
          else
            (case scanstring (length s) [] cs of
               PErr m k \<Rightarrow> PErr m k
             | PUnmodelled \<Rightarrow> PUnmodelled
             | POk key r \<Rightarrow>
                 (case skip_ws r of
                    [] \<Rightarrow> PErr (''Expecting '' @ sq @ '':'' @ sq @ '' delimiter'') 0
                  | x # r1 \<Rightarrow>
                      if x \<noteq> CHR '':'' then
                        PErr (''Expecting '' @ sq @ '':'' @ sq @ '' delimiter'') (Suc (length r1))
                      else
                        (case scan_once n d (skip_ws r1) of
                           PErr m k \<Rightarrow> PErr m k
                         | PUnmodelled \<Rightarrow> PUnmodelled
                         | POk v r2 \<Rightarrow>
                             (case skip_ws r2 of
                                [] \<Rightarrow> PErr (''Expecting '' @ sq @ '','' @ sq @ '' delimiter'') 0
                              | y # r3 \<Rightarrow>
                                  if y = CHR ''}'' then POk (PDict (dict_set acc key v)) r3
                                  else if y \<noteq> CHR '','' then
                                    PErr (''Expecting '' @ sq @ '','' @ sq @ '' delimiter'') (Suc (length r3))
                                  else parse_object n d (dict_set acc key v) (skip_ws r3))))))"
| "parse_array 0 d acc s = PUnmodelled"
| "parse_array (Suc n) d acc s =
     (case scan_once n d s of
        PErr m k \<Rightarrow> PErr m k
      | PUnmodelled \<Rightarrow> PUnmodelled
      | POk v r \<Rightarrow>
          (case skip_ws r of
             [] \<Rightarrow> PErr (''Expecting '' @ sq @ '','' @ sq @ '' delimiter'') 0
           | y # r1 \<Rightarrow>
               if y = CHR '']'' then POk (PList (acc @ [v])) r1
               else if y \<noteq> CHR '','' then
                 PErr (''Expecting '' @ sq @ '','' @ sq @ '' delimiter'') (Suc (length r1))
               else parse_array n d (acc @ [v]) (skip_ws r1)))"

text \<open>The text of a \<^verbatim>\<open>JSONDecodeError\<close> with message \<open>msg\<close> at position \<open>pos\<close> of \<open>doc\<close>.\<close>

definition errmsg :: "string \<Rightarrow> string \<Rightarrow> nat \<Rightarrow> string" where
  "errmsg msg doc pos =
     (let pre = take pos doc;
          lineno = length (filter (\<lambda>c. c = CHR 0x0A) pre) + 1;
          colno = length (takeWhile (\<lambda>c. c \<noteq> CHR 0x0A) (rev pre)) + 1
      in msg @ '': line '' @ show_nat lineno @ '' column '' @ show_nat colno @
         '' (char '' @ show_nat pos @ '')'')"

definition json_loads :: "string \<Rightarrow> pyval result" where
  "json_loads s =
     (case scan_once (2 * length s + 2) max_depth (skip_ws s) of
        PUnmodelled \<Rightarrow> Unmodelled
      | PErr m k \<Rightarrow> Raise (Exn JSONDecodeError (errmsg m s (length s - k)))
      | POk v r \<Rightarrow>
          (let r' = skip_ws r
           in if r' = [] then Ret v
              else Raise (Exn JSONDecodeError (errmsg ''Extra data'' s (length s - length r')))))"

text \<open>\<^verbatim>\<open>json.loads(v)\<close> for a value \<open>v\<close> that need not be a string.\<close>

definition py_json_loads :: "pyval \<Rightarrow> pyval result" where
  "py_json_loads v =
     (case v of
        PStr s \<Rightarrow> json_loads s
      | _ \<Rightarrow> Raise (Exn TypeError (''the JSON object must be str, bytes or bytearray, not '' @ type_name v)))"

section \<open>The tools of the notebooks\<close>

text \<open>\<^verbatim>\<open>v[key]\<close> for a string \<open>key\<close>.\<close>

definition py_getitem :: "pyval \<Rightarrow> string \<Rightarrow> pyval result" where
  "py_getitem v k =
     (case v of
        PDict d \<Rightarrow> (case map_of d k of Some x \<Rightarrow> Ret x | None \<Rightarrow> Raise (Exn KeyError (repr_str k)))
      | PStr s \<Rightarrow> Raise (Exn TypeError (''string indices must be integers, not '' @ sq @ ''str'' @ sq))
      | PList vs \<Rightarrow> Raise (Exn TypeError ''list indices must be integers or slices, not str'')
      | PTuple vs \<Rightarrow> Raise (Exn TypeError ''tuple indices must be integers or slices, not str'')
      | _ \<Rightarrow> Raise (Exn TypeError (sq @ type_name v @ sq @ '' object is not subscriptable'')))"

text \<open>
  The functions of the module \<^verbatim>\<open>operator\<close> that the calculator uses, on two integers.
  True division of integers gives a floating point number unless the divisor is zero, and
  so does a power with a negative exponent unless the base is zero.  Operands that are not
  both integers are outside the model.
\<close>

definition on_ints :: "(int \<Rightarrow> int \<Rightarrow> pyval result) \<Rightarrow> pyval \<Rightarrow> pyval \<Rightarrow> pyval result" where
  "on_ints f a b = (case a of PInt x \<Rightarrow> (case b of PInt y \<Rightarrow> f x y | _ \<Rightarrow> Unmodelled) | _ \<Rightarrow> Unmodelled)"

definition operator_add :: "pyval \<Rightarrow> pyval \<Rightarrow> pyval result" where
  "operator_add = on_ints (\<lambda>x y. Ret (PInt (x + y)))"

definition operator_sub :: "pyval \<Rightarrow> pyval \<Rightarrow> pyval result" where
  "operator_sub = on_ints (\<lambda>x y. Ret (PInt (x - y)))"

definition operator_mul :: "pyval \<Rightarrow> pyval \<Rightarrow> pyval result" where
  "operator_mul = on_ints (\<lambda>x y. Ret (PInt (x * y)))"

definition operator_truediv :: "pyval \<Rightarrow> pyval \<Rightarrow> pyval result" where
  "operator_truediv =
     on_ints (\<lambda>x y. if y = 0 then Raise (Exn ZeroDivisionError ''division by zero'') else Unmodelled)"

definition operator_floordiv :: "pyval \<Rightarrow> pyval \<Rightarrow> pyval result" where
  "operator_floordiv =
     on_ints (\<lambda>x y. if y = 0 then Raise (Exn ZeroDivisionError ''integer division or modulo by zero'')
                     else Ret (PInt (x div y)))"

definition operator_mod :: "pyval \<Rightarrow> pyval \<Rightarrow> pyval result" where
  "operator_mod =
     on_ints (\<lambda>x y. if y = 0 then Raise (Exn ZeroDivisionError ''integer modulo by zero'')
                     else Ret (PInt (x mod y)))"

definition operator_pow :: "pyval \<Rightarrow> pyval \<Rightarrow> pyval result" where
  "operator_pow =
     on_ints (\<lambda>x y. if 0 \<le> y then Ret (PInt (x ^ nat y))
                     else if x = 0 then Raise (Exn ZeroDivisionError ''0.0 cannot be raised to a negative power'')
                     else Unmodelled)"

definition operator_lt :: "pyval \<Rightarrow> pyval \<Rightarrow> pyval result" where
  "operator_lt = on_ints (\<lambda>x y. Ret (PBool (x < y)))"

definition operator_le :: "pyval \<Rightarrow> pyval \<Rightarrow> pyval result" where
  "operator_le = on_ints (\<lambda>x y. Ret (PBool (x \<le> y)))"

definition operator_eq :: "pyval \<Rightarrow> pyval \<Rightarrow> pyval result" where
  "operator_eq = on_ints (\<lambda>x y. Ret (PBool (x = y)))"

definition operator_ne :: "pyval \<Rightarrow> pyval \<Rightarrow> pyval result" where
  "operator_ne = on_ints (\<lambda>x y. Ret (PBool (x \<noteq> y)))"

definition operator_ge :: "pyval \<Rightarrow> pyval \<Rightarrow> pyval result" where
  "operator_ge = on_ints (\<lambda>x y. Ret (PBool (x \<ge> y)))"

definition operator_gt :: "pyval \<Rightarrow> pyval \<Rightarrow> pyval result" where
  "operator_gt = on_ints (\<lambda>x y. Ret (PBool (x > y)))"

text \<open>The dictionary \<^verbatim>\<open>operations\<close> of \<^verbatim>\<open>basic_calculator\<close>.\<close>

definition operations :: "(string \<times> (pyval \<Rightarrow> pyval \<Rightarrow> pyval result)) list" where
  "operations =
     [(''add'', operator_add),
      (''subtract'', operator_sub),
      (''multiply'', operator_mul),
      (''divide'', operator_truediv),
      (''floor_divide'', operator_floordiv),
      (''modulus'', operator_mod),
      (''power'', operator_pow),
      (''lt'', operator_lt),
      (''le'', operator_le),
      (''eq'', operator_eq),
      (''ne'', operator_ne),
      (''ge'', operator_ge),
      (''gt'', operator_gt)]"

text \<open>
  The lookup behind \<^verbatim>\<open>operation in operations\<close> and \<^verbatim>\<open>operations[operation]\<close>: a list or
  a dictionary cannot be hashed, and a key that is not a string is not in the dictionary.
\<close>

fun hashable :: "pyval \<Rightarrow> bool" where
  "hashable (PList vs) = False"
| "hashable (PDict kvs) = False"
| "hashable (PTuple vs) = list_all hashable vs"
| "hashable v = True"

definition find_operation :: "pyval \<Rightarrow> (pyval \<Rightarrow> pyval \<Rightarrow> pyval result) option result" where
  "find_operation operation =
     (case operation of
        PStr name \<Rightarrow> Ret (map_of operations name)
      | _ \<Rightarrow>
          if hashable operation then Ret None
          else Raise (Exn TypeError (''unhashable type: '' @ sq @ type_name operation @ sq)))"

text \<open>
  The first \<^verbatim>\<open>try\<close> block of \<^verbatim>\<open>basic_calculator\<close>.  The variable
  \<^verbatim>\<open>input_str_clean\<close> is the input with every single quote replaced by a double quote,
  then without the whitespace around it, then without the double quotes around that; it
  is decoded, and the three keys are read.
\<close>

definition input_str_clean :: "string \<Rightarrow> string" where
  "input_str_clean s = py_strip_chars dq (py_strip (py_replace (CHR 0x27) (CHR 0x22) s))"

definition read_input :: "pyval \<Rightarrow> (pyval \<times> pyval \<times> pyval) result" where
  "read_input input_str =
     (case input_str of
        PStr s \<Rightarrow>
          (case json_loads (input_str_clean s) of
             Raise e \<Rightarrow> Raise e
           | Unmodelled \<Rightarrow> Unmodelled
           | Ret input_dict \<Rightarrow>
               (case py_getitem input_dict ''num1'' of
                  Raise e \<Rightarrow> Raise e
                | Unmodelled \<Rightarrow> Unmodelled
                | Ret num1 \<Rightarrow>
                    (case py_getitem input_dict ''num2'' of
                       Raise e \<Rightarrow> Raise e
                     | Unmodelled \<Rightarrow> Unmodelled
                     | Ret num2 \<Rightarrow>
                         (case py_getitem input_dict ''operation'' of
                            Raise e \<Rightarrow> Raise e
                          | Unmodelled \<Rightarrow> Unmodelled
                          | Ret operation \<Rightarrow> Ret (num1, num2, operation)))))
      | _ \<Rightarrow> Raise (Exn AttributeError (sq @ type_name input_str @ sq @ '' object has no attribute '' @ sq @ ''replace'' @ sq)))"

text \<open>
  \<^verbatim>\<open>basic_calculator(input_str)\<close>.  \<^verbatim>\<open>except (json.JSONDecodeError, KeyError)\<close> turns
  these two exceptions of the first block into a pair; \<^verbatim>\<open>except Exception\<close> does the same
  for an exception of the operation; an operation that is not in the dictionary gives one
  string.
\<close>

definition basic_calculator :: "pyval \<Rightarrow> pyval result" where
  "basic_calculator input_str =
     (case read_input input_str of
        Raise e \<Rightarrow>
          if exn_class_of e = JSONDecodeError \<or> exn_class_of e = KeyError
          then Ret (PTuple [PStr (exn_str e), PStr ''Invalid input format. Please provide a valid JSON string.''])
          else Raise e
      | Unmodelled \<Rightarrow> Unmodelled
      | Ret (num1, num2, operation) \<Rightarrow>
          (case find_operation operation of
             Raise e \<Rightarrow> Raise e
           | Unmodelled \<Rightarrow> Unmodelled
           | Ret None \<Rightarrow> Ret (PStr (nl @ nl @ ''Unsupported operation. Please provide a valid operation.''))
           | Ret (Some f) \<Rightarrow>
               (case f num1 num2 of
                  Raise e \<Rightarrow>
                    if is_Exception e
                    then Ret (PTuple [PStr (exn_str e), PStr (nl @ nl @ ''Error during operation execution.'')])
                    else Raise e
                | Unmodelled \<Rightarrow> Unmodelled
                | Ret r \<Rightarrow>
                    if str_defined r
                    then Ret (PStr (nl @ nl @ ''The answer is: '' @ py_str r @ ''.'' @ nl @
                                    ''Calculated with basic_calculator.''))
                    else Unmodelled)))"

text \<open>\<^verbatim>\<open>reverse_string(input_string)\<close>: the slice \<^verbatim>\<open>[::-1]\<close> and the f-string.\<close>

definition reverse_string :: "pyval \<Rightarrow> pyval result" where
  "reverse_string input_string =
     (let reversed_string =
        (case input_string of
           PStr s \<Rightarrow> Ret (PStr (rev s))
         | PList vs \<Rightarrow> Ret (PList (rev vs))
         | PTuple vs \<Rightarrow> Ret (PTuple (rev vs))
         | PDict kvs \<Rightarrow> Raise (Exn TypeError (''unhashable type: '' @ sq @ ''slice'' @ sq))
         | _ \<Rightarrow> Raise (Exn TypeError (sq @ type_name input_string @ sq @ '' object is not subscriptable'')))
      in case reversed_string of
           Raise e \<Rightarrow> Raise e
         | Unmodelled \<Rightarrow> Unmodelled
         | Ret r \<Rightarrow>
             if str_defined r
             then Ret (PStr (''The reversed string is: '' @ py_str r @ nl @ nl @
                             ''Executed using the reverse_string function.''))
             else Unmodelled)"

text \<open>The documentation strings of the two tools, and the list \<^verbatim>\<open>tools\<close>.\<close>

definition basic_calculator_doc :: string where
  "basic_calculator_doc =
     intercalate nl
     [[],
      ''    Perform a numeric operation on two numbers based on the input string.'',
      [],
      ''    Parameters:'',
      ''    input_str (str): A JSON string representing a dictionary with keys:'',
      ''        - 'num1' (int): The first number.'',
      ''        - 'num2' (int): The second number.'',
      ''        - 'operation' (str): The operation to perform. Supported operations are 'add', 'subtract','',
      ''                             'multiply', 'divide', 'floor_divide', 'modulus', 'power', 'lt','',
      ''                             'le', 'eq', 'ne', 'ge', 'gt'.'',
      [],
      ''    Returns:'',
      ''    str: The formatted result of the operation.'',
      [],
      ''    Raises:'',
      ''    Exception: If an error occurs during the operation (e.g., division by zero).'',
      ''    ValueError: If an unsupported operation is requested or input is invalid.'',
      ''    '']"

definition reverse_string_doc :: string where
  "reverse_string_doc =
     intercalate nl
     [[],
      ''    Reverse the given string.'',
      [],
      ''    Parameters:'',
      ''    - input_string (str): The string to be reversed.'',
      [],
      ''    Returns:'',
      ''    str: The reversed string.'',
      ''    '']"

definition basic_calculator_tool :: tool where
  "basic_calculator_tool =
     \<lparr>tool_name = ''basic_calculator'', tool_doc = Some basic_calculator_doc, tool_call = basic_calculator\<rparr>"

definition reverse_string_tool :: tool where
  "reverse_string_tool =
     \<lparr>tool_name = ''reverse_string'', tool_doc = Some reverse_string_doc, tool_call = reverse_string\<rparr>"

definition notebook_tools :: "tool list" where
  "notebook_tools = [basic_calculator_tool, reverse_string_tool]"

section \<open>The JSON encoder\<close>

text \<open>
  \<^verbatim>\<open>json.dumps(v)\<close> and \<^verbatim>\<open>json.dumps(v, indent=2)\<close>, with the default
  \<^verbatim>\<open>ensure_ascii=True\<close>.  A tuple is written as a list.
\<close>

definition hex4 :: "char \<Rightarrow> string" where
  "hex4 c = ''00'' @ hex2 c"

definition json_char :: "char \<Rightarrow> string" where
  "json_char c =
     (if c = CHR 0x22 then bs @ dq
      else if c = CHR 0x5C then bs @ bs
      else if c = CHR 0x0A then bs @ ''n''
      else if c = CHR 0x0D then bs @ ''r''
      else if c = CHR 0x09 then bs @ ''t''
      else if c = CHR 0x08 then bs @ ''b''
      else if c = CHR 0x0C then bs @ ''f''
      else if 32 \<le> (of_char c :: nat) \<and> (of_char c :: nat) \<le> 126 then [c]
      else bs @ ''u'' @ hex4 c)"

definition json_string :: "string \<Rightarrow> string" where
  "json_string s = dq @ concat (map json_char s) @ dq"

fun json_dumps :: "pyval \<Rightarrow> string" where
  "json_dumps PNone = ''null''"
| "json_dumps (PBool b) = (if b then ''true'' else ''false'')"
| "json_dumps (PInt i) = show_int i"
| "json_dumps (PStr s) = json_string s"
| "json_dumps (PList vs) = ''['' @ intercalate '', '' (map json_dumps vs) @ '']''"
| "json_dumps (PTuple vs) = ''['' @ intercalate '', '' (map json_dumps vs) @ '']''"
| "json_dumps (PDict kvs) =
     ''{'' @ intercalate '', '' (map (\<lambda>kv. json_string (fst kv) @ '': '' @ json_dumps (snd kv)) kvs) @ ''}''"

fun json_dumps_indent :: "nat \<Rightarrow> pyval \<Rightarrow> string" where
  "json_dumps_indent n PNone = ''null''"
| "json_dumps_indent n (PBool b) = (if b then ''true'' else ''false'')"
| "json_dumps_indent n (PInt i) = show_int i"
| "json_dumps_indent n (PStr s) = json_string s"
| "json_dumps_indent n (PList vs) =
     (if vs = [] then ''[]''
      else ''['' @ nl @ replicate (n + 2) (CHR 0x20) @
           intercalate ('','' @ nl @ replicate (n + 2) (CHR 0x20)) (map (json_dumps_indent (n + 2)) vs) @
           nl @ replicate n (CHR 0x20) @ '']'')"
| "json_dumps_indent n (PTuple vs) =
     (if vs = [] then ''[]''
      else ''['' @ nl @ replicate (n + 2) (CHR 0x20) @
           intercalate ('','' @ nl @ replicate (n + 2) (CHR 0x20)) (map (json_dumps_indent (n + 2)) vs) @
           nl @ replicate n (CHR 0x20) @ '']'')"
| "json_dumps_indent n (PDict kvs) =
     (if kvs = [] then ''{}''
      else ''{'' @ nl @ replicate (n + 2) (CHR 0x20) @
           intercalate ('','' @ nl @ replicate (n + 2) (CHR 0x20))
             (map (\<lambda>kv. json_string (fst kv) @ '': '' @ json_dumps_indent (n + 2) (snd kv)) kvs) @
           nl @ replicate n (CHR 0x20) @ ''}'')"

section \<open>Tool descriptions\<close>

definition rbind :: "'a result \<Rightarrow> ('a \<Rightarrow> 'b result) \<Rightarrow> 'b result" where
  "rbind r f = (case r of Ret x \<Rightarrow> f x | Raise e \<Rightarrow> Raise e | Unmodelled \<Rightarrow> Unmodelled)"

fun collect :: "('a \<Rightarrow> 'b result) \<Rightarrow> 'a list \<Rightarrow> 'b list result" where
  "collect f [] = Ret []"
| "collect f (x # xs) = rbind (f x) (\<lambda>y. rbind (collect f xs) (\<lambda>ys. Ret (y # ys)))"

text \<open>
  The loop of \<^verbatim>\<open>Agent.prepare_tools\<close> over the lines of the parameters section.  Its
  state is the flag \<^verbatim>\<open>param_section_started\<close>, the dictionary \<^verbatim>\<open>param_dict\<close> and the
  variable \<^verbatim>\<open>description\<close>, which the unpacking
  \<^verbatim>\<open>param_name_type, description = param_name_type_desc\<close> assigns again.
\<close>

fun parameter_lines ::
  "string list \<Rightarrow> bool \<Rightarrow> string \<Rightarrow> (string \<times> pyval) list \<Rightarrow> (string \<times> (string \<times> pyval) list) result"
where
  "parameter_lines [] param_section_started description param_dict = Ret (description, param_dict)"
| "parameter_lines (line # lines) param_section_started description param_dict =
     (if contains ''Parameters:'' line then parameter_lines lines True description param_dict
      else if \<not> param_section_started \<or> py_strip line = [] then
        parameter_lines lines param_section_started description param_dict
      else if contains '': '' line then
        (let param_name_type_desc = py_split1 '':'' line
         in if length param_name_type_desc = 2 then
              rbind (py_index param_name_type_desc 0) (\<lambda>param_name_type.
              rbind (py_index param_name_type_desc 1) (\<lambda>description'.
              rbind (py_index (py_split1 ''('' param_name_type) 0) (\<lambda>param_name.
              rbind (if contains ''('' param_name_type
                     then rbind (py_index (py_split1 ''('' param_name_type) 1)
                            (\<lambda>rest. py_index (py_split1 '')'' rest) 0)
                     else Ret ''str'') (\<lambda>param_type.
              parameter_lines lines param_section_started description'
                (dict_set param_dict (py_strip param_name)
                   (PDict [(''param_type'', PStr (py_strip param_type)),
                           (''description'', PStr (py_strip description')),
                           (''required'', PBool True)]))))))
            else parameter_lines lines param_section_started description param_dict)
      else parameter_lines lines param_section_started description param_dict)"

text \<open>The body of the loop over the tools: the dictionary \<^verbatim>\<open>tool_info\<close> of one tool.\<close>

definition tool_info :: "tool \<Rightarrow> pyval result" where
  "tool_info t =
     (let name = tool_name t;
          docstring =
            (case tool_doc t of
               None \<Rightarrow> ''No description available.''
             | Some d \<Rightarrow> if d = [] then ''No description available.'' else py_strip d);
          parts = py_split1 (nl @ nl) docstring
      in rbind (py_index parts 0) (\<lambda>first.
         rbind (py_index (py_split nl first) 0) (\<lambda>description.
         rbind (if 1 < length parts then py_index parts 1 else Ret []) (\<lambda>parameters_section.
         rbind (if contains ''Parameters:'' parameters_section
                then parameter_lines (py_split nl parameters_section) False description []
                else Ret (description, [])) (\<lambda>dp.
         Ret (PDict [(''name'', PStr name),
                     (''description'', PStr (fst dp)),
                     (''parameters'', PDict (snd dp))]))))))"

definition tools_info :: "tool list \<Rightarrow> pyval list result" where
  "tools_info ts = collect tool_info ts"

text \<open>One element of the list that \<^verbatim>\<open>Agent.prepare_tools\<close> joins with newlines.\<close>

definition describe_tool :: "pyval \<Rightarrow> string result" where
  "describe_tool info =
     rbind (py_getitem info ''name'') (\<lambda>name.
     rbind (py_getitem info ''description'') (\<lambda>description.
     if str_defined info
     then Ret (''Use the function '' @ sq @ py_str name @ sq @ '' to: '' @ py_str description @ nl @
               json_dumps_indent 0 info)
     else Unmodelled))"

definition Agent_prepare_tools :: "tool list \<Rightarrow> string result" where
  "Agent_prepare_tools ts =
     rbind (tools_info ts) (\<lambda>infos.
     rbind (collect describe_tool infos) (\<lambda>ds. Ret (intercalate nl ds)))"

text \<open>
  The function \<^verbatim>\<open>prepare_tools(tools)\<close> of the Mistral notebook: a dictionary from the
  name of each tool to its documentation, then one line per key.
\<close>

definition prepare_tools :: "tool list \<Rightarrow> string" where
  "prepare_tools ts =
     (let tools_dict = foldl (\<lambda>d t. dict_set d (tool_name t) (tool_doc t)) [] ts
      in intercalate nl
           (map (\<lambda>nd. fst nd @ '': '' @ dq @ (case snd nd of None \<Rightarrow> ''None'' | Some desc \<Rightarrow> desc) @ dq)
              tools_dict))"

section \<open>The agent\<close>

text \<open>The system prompt of the Llama 3.1 notebook.\<close>

definition agent_system_prompt_template :: string where
  "agent_system_prompt_template =
     intercalate nl
     [[],
      ''Environment: ipython'',
      [],
      [],
      ''Cutting Knowledge Date: December 2023'',
      ''Today Date: July 2024'',
      [],
      ''You have access to the following functions:'',
      [],
      ''{tool_descriptions}'',
      ''Think very carefully before calling functions.'',
      ''If you choose to call a function ONLY reply in the JSON format with no prefix or suffix:'',
      [],
      dq @ ''tool_choice'' @ dq @ '': '' @ dq @ ''name_of_the_tool'' @ dq @ '','',
      dq @ ''tool_input'' @ dq @ '': '' @ dq @ ''inputs_to_the_tool'' @ dq,
      [],
      ''- `tool_choice`: The name of the tool you want to use. It must be a tool from your toolbox '',
      ''                or '' @ dq @ ''no tool'' @ dq @ '' if you do not need to use a tool.'',
      ''- `tool_input`: The specific inputs required for the selected tool. '',
      ''                If no tool, just provide a response to the query.'',
      [],
      ''Reminder:'',
      ''- If looking for real time information use relevant functions before falling back to brave_search'',
      ''- Function calls MUST follow the specified format, start with <function= and end with </function>'',
      ''- Required parameters MUST be specified'',
      ''- Only call one function at a time'',
      ''- Put the entire function call reply on one line'',
      [],
      ''You are a helpful Assistant.'',
      []]"

text \<open>
  \<^verbatim>\<open>template.format(tool_descriptions=d)\<close>, for a template whose only replacement field
  is \<^verbatim>\<open>{tool_descriptions}\<close>; doubled braces stand for one brace.  Any other use of a
  brace is outside the model.
\<close>

fun py_format :: "string \<Rightarrow> string \<Rightarrow> string result" where
  "py_format [] d = Ret []"
| "py_format (c # cs) d =
     (if c = CHR ''{'' then
        (if startswith ''{'' cs then rbind (py_format (tl cs) d) (\<lambda>r. Ret (CHR ''{'' # r))
         else if startswith ''tool_descriptions}'' cs
           then rbind (py_format (drop 18 cs) d) (\<lambda>r. Ret (d @ r))
         else Unmodelled)
      else if c = CHR ''}'' then
        (if startswith ''}'' cs then rbind (py_format (tl cs) d) (\<lambda>r. Ret (CHR ''}'' # r))
         else Unmodelled)
      else rbind (py_format cs d) (\<lambda>r. Ret (c # r)))"

text \<open>
  The dictionary that \<^verbatim>\<open>setup_ollama_model\<close> returns, and the attributes of an \<^verbatim>\<open>Agent\<close>.
\<close>

record model_config =
  cfg_model_endpoint :: string
  cfg_model :: string
  cfg_system_prompt :: string
  cfg_temperature :: pyval
  cfg_headers :: "(string \<times> string) list"
  cfg_stop :: pyval

definition setup_ollama_model :: "string \<Rightarrow> string \<Rightarrow> pyval \<Rightarrow> pyval \<Rightarrow> model_config" where
  "setup_ollama_model model system_prompt temperature stop =
     \<lparr>cfg_model_endpoint = ''http://localhost:11434/api/generate'',
      cfg_model = model,
      cfg_system_prompt = system_prompt,
      cfg_temperature = temperature,
      cfg_headers = [(''Content-Type'', ''application/json'')],
      cfg_stop = stop\<rparr>"

definition ollama_config :: model_config where
  "ollama_config = setup_ollama_model ''llama3.1'' agent_system_prompt_template (PInt 0) PNone"

record agent =
  tools :: "tool list"
  model_endpoint :: string
  model_name :: string
  system_prompt :: string
  temperature :: pyval
  headers :: "(string \<times> string) list"
  stop :: pyval
  tool_descriptions :: string

text \<open>\<^verbatim>\<open>Agent.__init__(self, tools, model_config)\<close>.\<close>

definition Agent_init :: "tool list \<Rightarrow> model_config \<Rightarrow> agent result" where
  "Agent_init ts cfg =
     rbind (Agent_prepare_tools ts) (\<lambda>d.
     Ret \<lparr>tools = ts,
          model_endpoint = cfg_model_endpoint cfg,
          model_name = cfg_model cfg,
          system_prompt = cfg_system_prompt cfg,
          temperature = cfg_temperature cfg,
          headers = cfg_headers cfg,
          stop = cfg_stop cfg,
          tool_descriptions = d\<rparr>)"

text \<open>
  The completion service is outside the program: \<^verbatim>\<open>requests.post(url, headers, data)\<close>
  either raises or gives a response with a body.  \<^verbatim>\<open>response.json()\<close> decodes the body and
  raises its own \<^verbatim>\<open>JSONDecodeError\<close>, which is a \<^verbatim>\<open>RequestException\<close>, when the body is not
  JSON.
\<close>

type_synonym service = "string \<Rightarrow> (string \<times> string) list \<Rightarrow> string \<Rightarrow> string result"

definition response_json :: "string \<Rightarrow> pyval result" where
  "response_json body =
     (case json_loads body of
        Raise e \<Rightarrow>
          if exn_class_of e = JSONDecodeError then Raise (Exn RequestException (exn_str e)) else Raise e
      | r \<Rightarrow> r)"

text \<open>The statements of the \<^verbatim>\<open>try\<close> block of \<^verbatim>\<open>Agent.think\<close> before its \<^verbatim>\<open>print\<close>.\<close>

definition ask_model :: "agent \<Rightarrow> service \<Rightarrow> pyval \<Rightarrow> pyval result" where
  "ask_model self post payload =
     (if \<not> str_defined payload then Unmodelled
      else
        rbind (post (model_endpoint self) (headers self) (json_dumps payload)) (\<lambda>body.
        rbind (response_json body) (\<lambda>response_json.
        rbind (py_getitem response_json ''response'') (\<lambda>text. py_json_loads text))))"

text \<open>
  \<^verbatim>\<open>Agent.think(self, prompt)\<close>.  Only \<^verbatim>\<open>requests.RequestException\<close> is caught; the
  decoded text of the reply is returned as it is.
\<close>

definition think :: "agent \<Rightarrow> service \<Rightarrow> string \<Rightarrow> pyval io" where
  "think self post prompt =
     (case py_format (system_prompt self) (tool_descriptions self) of
        Raise e \<Rightarrow> ([], Raise e)
      | Unmodelled \<Rightarrow> ([], Unmodelled)
      | Ret system \<Rightarrow>
          (let payload =
                 PDict [(''model'', PStr (model_name self)),
                        (''format'', PStr ''json''),
                        (''prompt'', PStr prompt),
                        (''system'', PStr system),
                        (''stream'', PBool False),
                        (''temperature'', temperature self),
                        (''stop'', stop self)]
           in case ask_model self post payload of
                Raise e \<Rightarrow>
                  if exn_class_of e = RequestException
                  then ([Print (''Error in invoking model! '' @ exn_str e)],
                        Ret (PDict [(''error'', PStr (exn_str e))]))
                  else ([], Raise e)
              | Unmodelled \<Rightarrow> ([], Unmodelled)
              | Ret response_dict \<Rightarrow>
                  if str_defined response_dict
                  then ([Print (nl @ nl @ ''Response from model: '' @ py_str response_dict)], Ret response_dict)
                  else ([], Unmodelled)))"

text \<open>
  The function \<^verbatim>\<open>generate_response(prompt, config)\<close> of the Mistral notebook is the same
  code; the template and the tool descriptions are globals of the notebook.
\<close>

definition generate_response :: "string \<Rightarrow> string \<Rightarrow> service \<Rightarrow> string \<Rightarrow> model_config \<Rightarrow> pyval io" where
  "generate_response template tools_description post prompt config =
     (case py_format template tools_description of
        Raise e \<Rightarrow> ([], Raise e)
      | Unmodelled \<Rightarrow> ([], Unmodelled)
      | Ret agent_system_prompt \<Rightarrow>
          (let payload =
                 PDict [(''model'', PStr (cfg_model config)),
                        (''format'', PStr ''json''),
                        (''prompt'', PStr prompt),
                        (''system'', PStr agent_system_prompt),
                        (''stream'', PBool False),
                        (''temperature'', cfg_temperature config),
                        (''stop'', cfg_stop config)]
           in case (if \<not> str_defined payload then Unmodelled
                    else
                      rbind (post (cfg_model_endpoint config) (cfg_headers config) (json_dumps payload)) (\<lambda>body.
                      rbind (response_json body) (\<lambda>response_json.
                      rbind (py_getitem response_json ''response'') (\<lambda>text. py_json_loads text)))) of
                Raise e \<Rightarrow>
                  if exn_class_of e = RequestException
                  then ([Print (''Error in invoking model! '' @ exn_str e)],
                        Ret (PDict [(''error'', PStr (exn_str e))]))
                  else ([], Raise e)
              | Unmodelled \<Rightarrow> ([], Unmodelled)
              | Ret response_dict \<Rightarrow>
                  if str_defined response_dict
                  then ([Print (nl @ nl @ ''Response from Ollama model: '' @ py_str response_dict)],
                        Ret response_dict)
                  else ([], Unmodelled)))"

text \<open>
  The method \<^verbatim>\<open>Agent.execute_tool(self, response)\<close> of the Llama 3.1 notebook.  The call of
  the tool and the printing of its result are inside \<^verbatim>\<open>try\<close> ... \<^verbatim>\<open>except Exception\<close>; when
  the loop finds no tool, a message naming \<^verbatim>\<open>tool_choice\<close> is printed in red.
\<close>

fun Agent_execute_tool_loop :: "tool list \<Rightarrow> pyval \<Rightarrow> pyval \<Rightarrow> pyval io" where
  "Agent_execute_tool_loop [] tool_choice tool_input =
     (if str_defined tool_choice
      then ([PrintColored (''Tool '' @ py_str tool_choice @ '' not found or unsupported operation.'') Red],
            Ret PNone)
      else ([], Unmodelled))"
| "Agent_execute_tool_loop (t # ts) tool_choice tool_input =
     (if PStr (tool_name t) = tool_choice then
        (case tool_call t tool_input of
           Ret r \<Rightarrow>
             (if str_defined r
              then ([Call (tool_name t) tool_input, PrintColored (py_str r) Cyan], Ret PNone)
              else ([Call (tool_name t) tool_input], Unmodelled))
         | Raise e \<Rightarrow>
             (if is_Exception e
              then ([Call (tool_name t) tool_input,
                     PrintColored (''Error executing tool '' @ py_str tool_choice @ '': '' @ exn_str e) Red],
                    Ret PNone)
              else ([Call (tool_name t) tool_input], Raise e))
         | Unmodelled \<Rightarrow> ([Call (tool_name t) tool_input], Unmodelled))
      else Agent_execute_tool_loop ts tool_choice tool_input)"

definition Agent_execute_tool :: "agent \<Rightarrow> pyval \<Rightarrow> pyval io" where
  "Agent_execute_tool self response =
     (case py_get response ''tool_choice'' of
        Raise e \<Rightarrow> ([], Raise e)
      | Unmodelled \<Rightarrow> ([], Unmodelled)
      | Ret tool_choice \<Rightarrow>
          (case py_get response ''tool_input'' of
             Raise e \<Rightarrow> ([], Raise e)
           | Unmodelled \<Rightarrow> ([], Unmodelled)
           | Ret tool_input \<Rightarrow> Agent_execute_tool_loop (tools self) tool_choice tool_input))"

text \<open>
  \<^verbatim>\<open>Agent.work(self, prompt)\<close>: the response of \<^verbatim>\<open>think\<close> goes to \<^verbatim>\<open>execute_tool\<close>, whose
  value is dropped; the method has no \<^verbatim>\<open>return\<close> statement.
\<close>

definition work :: "agent \<Rightarrow> service \<Rightarrow> string \<Rightarrow> pyval io" where
  "work self post prompt =
     (case think self post prompt of
        (out, Raise e) \<Rightarrow> (out, Raise e)
      | (out, Unmodelled) \<Rightarrow> (out, Unmodelled)
      | (out, Ret response) \<Rightarrow>
          (case Agent_execute_tool self response of
             (out', Raise e) \<Rightarrow> (out @ out', Raise e)
           | (out', Unmodelled) \<Rightarrow> (out @ out', Unmodelled)
           | (out', Ret r) \<Rightarrow> (out @ out', Ret PNone)))"

text \<open>
  The cell \<^verbatim>\<open>agent = Agent(tools=tools, model_config=ollama_config)\<close>: the agent of the
  Llama 3.1 notebook.
\<close>

definition notebook_tool_descriptions :: string where
  "notebook_tool_descriptions = (case Agent_prepare_tools notebook_tools of Ret d \<Rightarrow> d | _ \<Rightarrow> [])"

definition notebook_agent :: agent where
  "notebook_agent =
     \<lparr>tools = notebook_tools,
      model_endpoint = cfg_model_endpoint ollama_config,
      model_name = cfg_model ollama_config,
      system_prompt = cfg_system_prompt ollama_config,
      temperature = cfg_temperature ollama_config,
      headers = cfg_headers ollama_config,
      stop = cfg_stop ollama_config,
      tool_descriptions = notebook_tool_descriptions\<rparr>"

text \<open>The dictionary \<^verbatim>\<open>{"tool_choice": ..., "tool_input": ...}\<close> that the model is asked for.\<close>

definition decision :: "string \<Rightarrow> pyval \<Rightarrow> pyval" where
  "decision tool_choice tool_input = PDict [(''tool_choice'', PStr tool_choice), (''tool_input'', tool_input)]"

text \<open>
  A completion service that answers every request with a body whose \<^verbatim>\<open>response\<close> field
  is the given text, as the endpoint \<^verbatim>\<open>/api/generate\<close> does with the text it generated.
\<close>

definition reply_text :: "string \<Rightarrow> service" where
  "reply_text t = (\<lambda>url hdrs data. Ret (json_dumps (PDict [(''response'', PStr t)])))"

text \<open>
  The first of the keys \<^verbatim>\<open>num1\<close>, \<^verbatim>\<open>num2\<close>, \<^verbatim>\<open>operation\<close> that a dictionary lacks, in the
  order in which \<^verbatim>\<open>basic_calculator\<close> reads them.
\<close>

definition missing_key :: "(string \<times> pyval) list \<Rightarrow> string option" where
  "missing_key d = List.find (\<lambda>k. map_of d k = None) [''num1'', ''num2'', ''operation'']"

text \<open>
  Tools for the examples: two tools that share the name \<^verbatim>\<open>lookup\<close>, and a tool whose
  documentation has a parameter line without a type and a parameter line without a colon.
\<close>

definition lookup_word :: tool where
  "lookup_word = \<lparr>tool_name = ''lookup'', tool_doc = Some ''Look up a word.'', tool_call = (\<lambda>v. Ret v)\<rparr>"

definition lookup_number :: tool where
  "lookup_number = \<lparr>tool_name = ''lookup'', tool_doc = Some ''Look up a number.'', tool_call = (\<lambda>v. Ret v)\<rparr>"

definition translate :: tool where
  "translate =
     \<lparr>tool_name = ''translate'',
      tool_doc = Some (intercalate nl
        [''Translate a word.'',
         [],
         ''Parameters:'',
         ''word: the word to translate'',
         ''language (str) the language of the word'']),
      tool_call = (\<lambda>v. Ret v)\<rparr>"

section \<open>Properties\<close>

subsection \<open>Dispatch\<close>



lemma calculator_add:
  \<open>basic_calculator (PStr ''{"num1": 5, "num2": 5, "operation": "add"}'') =
     Ret (PStr (nl @ nl @ ''The answer is: 10.'' @ nl @ ''Calculated with basic_calculator.''))\<close>
  by code_simp

lemma calculator_divide_by_zero:
  \<open>basic_calculator (PStr ''{"num1": 1, "num2": 0, "operation": "divide"}'') =
     Ret (PTuple [PStr ''division by zero'', PStr (nl @ nl @ ''Error during operation execution.'')])\<close>
  by code_simp

text \<open>What \<^verbatim>\<open>Agent.execute_tool\<close> does with a decision for the calculator.\<close>

lemma Agent_execute_tool_calculator:
  "Agent_execute_tool notebook_agent (decision ''basic_calculator'' tool_input) =
     (case basic_calculator tool_input of
        Ret r \<Rightarrow>
          if str_defined r
          then ([Call ''basic_calculator'' tool_input, PrintColored (py_str r) Cyan], Ret PNone)
          else ([Call ''basic_calculator'' tool_input], Unmodelled)
      | Raise e \<Rightarrow>
          if is_Exception e
          then ([Call ''basic_calculator'' tool_input,
                 PrintColored (''Error executing tool basic_calculator: '' @ exn_str e) Red], Ret PNone)
          else ([Call ''basic_calculator'' tool_input], Raise e)
      | Unmodelled \<Rightarrow> ([Call ''basic_calculator'' tool_input], Unmodelled))"
  by (simp add: Agent_execute_tool_def decision_def py_get_def notebook_agent_def notebook_tools_def
      basic_calculator_tool_def split: result.splits)

text \<open>
  An exception of a tool, of a class derived from \<^verbatim>\<open>Exception\<close>, does not leave
  \<^verbatim>\<open>Agent.execute_tool\<close>: a line with the name of the tool and the text of the exception is
  printed in red, and the method returns.
\<close>

lemma Agent_execute_tool_catches:
  assumes "t \<in> set (tools self)" and "distinct (map tool_name (tools self))"
      and "tool_call t tool_input = Raise e" and "is_Exception e"
  shows "Agent_execute_tool self (decision (tool_name t) tool_input) =
           ([Call (tool_name t) tool_input,
             PrintColored (''Error executing tool '' @ tool_name t @ '': '' @ exn_str e) Red], Ret PNone)"
proof -
  have "t \<in> set ts \<Longrightarrow> distinct (map tool_name ts) \<Longrightarrow>
        Agent_execute_tool_loop ts (PStr (tool_name t)) tool_input =
          ([Call (tool_name t) tool_input,
            PrintColored (''Error executing tool '' @ tool_name t @ '': '' @ exn_str e) Red], Ret PNone)" for ts
    using assms(3,4) by (induction ts) auto
  then show ?thesis
    using assms(1,2) by (simp add: Agent_execute_tool_def decision_def py_get_def)
qed

text \<open>
  Claim C1, at its own example.  The decision names \<^verbatim>\<open>basic_calculator\<close> and asks for 1
  divided by 0.  The calculator catches the \<^verbatim>\<open>ZeroDivisionError\<close> itself and returns the
  pair of the message and a hint, so \<^verbatim>\<open>Agent.execute_tool\<close> sees a tool that returned: no
  red line \<^verbatim>\<open>Error executing tool\<close> is printed, the pair is printed in cyan like a result.
\<close>

theorem division_by_zero_printed_as_result:
  \<open>Agent_execute_tool notebook_agent
      (decision ''basic_calculator'' (PStr ''{"num1": 1, "num2": 0, "operation": "divide"}'')) =
     ([Call ''basic_calculator'' (PStr ''{"num1": 1, "num2": 0, "operation": "divide"}''),
       PrintColored (''('' @ sq @ ''division by zero'' @ sq @ '', '' @ sq @ bs @ ''n'' @ bs @ ''n'' @
                     ''Error during operation execution.'' @ sq @ '')'') Cyan],
      Ret PNone)\<close>
  by (simp add: Agent_execute_tool_calculator calculator_divide_by_zero repr_str_def repr_char_def
      printable_def Let_def)

lemma execute_tool_loop_no_match:
  "tool_choice \<notin> (\<lambda>t. PStr (tool_name t)) ` set ts \<Longrightarrow>
   execute_tool_loop ts tool_choice (PStr text) = ([PrintColored text Cyan], Ret PNone)"
  by (induction ts) auto

text \<open>
  The function \<^verbatim>\<open>execute_tool\<close> of the Mistral notebook answers directly: when
  \<^verbatim>\<open>tool_choice\<close> is absent, empty or \<^verbatim>\<open>"no tool"\<close>, and no tool has such a name, the text
  of \<^verbatim>\<open>tool_input\<close> is printed in cyan.
\<close>

lemma execute_tool_direct_answer:
  assumes "map_of d ''tool_choice'' = None \<or> map_of d ''tool_choice'' = Some (PStr ''no tool'')
           \<or> map_of d ''tool_choice'' = Some (PStr [])"
      and "map_of d ''tool_input'' = Some (PStr text)"
      and "''no tool'' \<notin> set (map tool_name ts)" and "[] \<notin> set (map tool_name ts)"
  shows "execute_tool (PDict d) ts = ([PrintColored text Cyan], Ret PNone)"
proof -
  obtain c where c: "py_get (PDict d) ''tool_choice'' = Ret c"
      "c = PNone \<or> c = PStr ''no tool'' \<or> c = PStr []"
    using assms(1) by (auto simp: py_get_def)
  have "c \<notin> (\<lambda>t. PStr (tool_name t)) ` set ts"
    using c(2) assms(3,4) by force
  then show ?thesis
    using c(1) assms(2) by (simp add: execute_tool_def py_get_def execute_tool_loop_no_match)
qed

lemma Agent_execute_tool_no_tool:
  "Agent_execute_tool notebook_agent (decision ''no tool'' tool_input) =
     ([PrintColored ''Tool no tool not found or unsupported operation.'' Red], Ret PNone)"
  by (simp add: Agent_execute_tool_def decision_def py_get_def notebook_agent_def notebook_tools_def
      basic_calculator_tool_def reverse_string_tool_def)

text \<open>
  Claim C2, at its own example.  \<^verbatim>\<open>Agent.execute_tool\<close> has no branch for the decision
  \<^verbatim>\<open>"no tool"\<close>: the loop finds no tool of that name and the method prints, in red, that
  the tool was not found.  The text \<^verbatim>\<open>hello\<close> of \<^verbatim>\<open>tool_input\<close> is not printed.
\<close>

theorem no_tool_reported_as_not_found:
  "Agent_execute_tool notebook_agent (decision ''no tool'' (PStr ''hello'')) =
     ([PrintColored ''Tool no tool not found or unsupported operation.'' Red], Ret PNone)"
  by (rule Agent_execute_tool_no_tool)





text \<open>
  Claim C5.  For the decision that names \<^verbatim>\<open>basic_calculator\<close> with the input
  \<^verbatim>\<open>{"num1": 5, "num2": 5, "operation": "add"}\<close>, \<^verbatim>\<open>Agent.execute_tool\<close> calls the
  calculator once and prints its result in cyan; the text printed has \<^verbatim>\<open>10\<close> in it.
\<close>

theorem calculator_adds_five_and_five:
  \<open>Agent_execute_tool notebook_agent
      (decision ''basic_calculator'' (PStr ''{"num1": 5, "num2": 5, "operation": "add"}'')) =
     ([Call ''basic_calculator'' (PStr ''{"num1": 5, "num2": 5, "operation": "add"}''),
       PrintColored (nl @ nl @ ''The answer is: '' @ ''10'' @ ''.'' @ nl @ ''Calculated with basic_calculator.'') Cyan],
      Ret PNone)\<close>
  by (simp add: Agent_execute_tool_calculator calculator_add)

subsection \<open>The model client and the turn\<close>

lemma json_loads_raises_JSONDecodeError:
  "json_loads s = Raise e \<Longrightarrow> exn_class_of e = JSONDecodeError"
  by (auto simp: json_loads_def Let_def split: pres.splits if_splits)

text \<open>
  What \<^verbatim>\<open>Agent.think\<close> returns when the service answers with a body that is a JSON
  object whose \<^verbatim>\<open>response\<close> field is the text \<open>t\<close>: the value of \<^verbatim>\<open>json.loads(t)\<close>, or its
  exception.
\<close>

lemma think_on_reply:
  assumes fmt: "py_format (system_prompt self) (tool_descriptions self) = Ret system"
      and cfg: "str_defined (temperature self)" "str_defined (stop self)"
      and post: "\<And>data. post (model_endpoint self) (headers self) data = Ret body"
      and body: "response_json body = Ret reply"
      and resp: "py_getitem reply ''response'' = Ret (PStr t)"
  shows "think self post prompt =
           (case json_loads t of
              Ret response_dict \<Rightarrow>
                if str_defined response_dict
                then ([Print (nl @ nl @ ''Response from model: '' @ py_str response_dict)], Ret response_dict)
                else ([], Unmodelled)
            | Raise e \<Rightarrow> ([], Raise e)
            | Unmodelled \<Rightarrow> ([], Unmodelled))"
proof -
  have ask: "ask_model self post payload = json_loads t" if "str_defined payload" for payload
    using that post body resp by (simp add: ask_model_def rbind_def py_json_loads_def)
  show ?thesis
    using fmt cfg
    by (auto simp: think_def ask Let_def dest: json_loads_raises_JSONDecodeError split: result.splits)
qed

lemma generate_response_on_reply:
  assumes fmt: "py_format template tools_description = Ret system"
      and cfg: "str_defined (cfg_temperature config)" "str_defined (cfg_stop config)"
      and post: "\<And>data. post (cfg_model_endpoint config) (cfg_headers config) data = Ret body"
      and body: "response_json body = Ret reply"
      and resp: "py_getitem reply ''response'' = Ret (PStr t)"
  shows "generate_response template tools_description post prompt config =
           (case json_loads t of
              Ret response_dict \<Rightarrow>
                if str_defined response_dict
                then ([Print (nl @ nl @ ''Response from Ollama model: '' @ py_str response_dict)], Ret response_dict)
                else ([], Unmodelled)
            | Raise e \<Rightarrow> ([], Raise e)
            | Unmodelled \<Rightarrow> ([], Unmodelled))"
  using assms
  by (auto simp: generate_response_def rbind_def py_json_loads_def Let_def
      dest: json_loads_raises_JSONDecodeError split: result.splits)

text \<open>The system prompt of the notebook formats, whatever the tool descriptions are.\<close>

lemma is_Ret_rbind: "(\<And>x. is_Ret (f x)) \<Longrightarrow> is_Ret (rbind r f) = is_Ret r"
  by (cases r) (simp_all add: rbind_def is_Ret_def)

lemma is_Ret_Ret: "is_Ret (Ret x)"
  by (simp add: is_Ret_def)

lemma py_format_any_descriptions: "is_Ret (py_format t d) = is_Ret (py_format t d')"
  by (induction t d rule: py_format.induct) (simp_all add: is_Ret_rbind is_Ret_Ret)

lemma template_formats: "is_Ret (py_format agent_system_prompt_template [])"
  by code_simp

lemma notebook_format:
  "\<exists>system. py_format (system_prompt notebook_agent) (tool_descriptions notebook_agent) = Ret system"
proof -
  have "is_Ret (py_format agent_system_prompt_template (tool_descriptions notebook_agent))"
    using template_formats py_format_any_descriptions by blast
  then show ?thesis
    by (simp add: notebook_agent_def ollama_config_def setup_ollama_model_def is_Ret_def split: result.splits)
qed

lemma notebook_cfg:
  "str_defined (temperature notebook_agent)" "str_defined (stop notebook_agent)"
  by (simp_all add: notebook_agent_def ollama_config_def setup_ollama_model_def int_digits_ok_def
      show_nat.simps)

text \<open>\<^verbatim>\<open>Agent.think\<close> of the notebook's agent, when the service generates the text \<open>t\<close>.\<close>

lemma notebook_think:
  assumes "response_json (json_dumps (PDict [(''response'', PStr t)])) = Ret (PDict [(''response'', PStr t)])"
  shows "think notebook_agent (reply_text t) prompt =
           (case json_loads t of
              Ret response_dict \<Rightarrow>
                if str_defined response_dict
                then ([Print (nl @ nl @ ''Response from model: '' @ py_str response_dict)], Ret response_dict)
                else ([], Unmodelled)
            | Raise e \<Rightarrow> ([], Raise e)
            | Unmodelled \<Rightarrow> ([], Unmodelled))"
proof -
  obtain system where fmt: "py_format (system_prompt notebook_agent) (tool_descriptions notebook_agent) = Ret system"
    using notebook_format by blast
  have post: "\<And>data. reply_text t (model_endpoint notebook_agent) (headers notebook_agent) data =
                 Ret (json_dumps (PDict [(''response'', PStr t)]))"
    by (simp add: reply_text_def)
  have resp: "py_getitem (PDict [(''response'', PStr t)]) ''response'' = Ret (PStr t)"
    by (simp add: py_getitem_def)
  show ?thesis
    by (rule think_on_reply [where post = "reply_text t", OF fmt notebook_cfg post assms resp])
qed

text \<open>
  Claim C4 as stated fails at the example of the notebook.  The service answers
  \<^verbatim>\<open>What is 5+5?\<close> with a decision for the calculator; \<^verbatim>\<open>work\<close> prints the decision and, in
  cyan, the text of the calculator, and what it returns to the caller is \<^verbatim>\<open>None\<close>.
\<close>

theorem work_returns_None_example:
  \<open>work notebook_agent
      (reply_text (json_dumps (decision ''basic_calculator'' (PStr ''{"num1": 5, "operation": "add", "num2": 5}''))))
      ''What is 5+5?'' =
     ([Print (nl @ nl @ ''Response from model: {'tool_choice': 'basic_calculator', 'tool_input': '{"num1": 5, "operation": "add", "num2": 5}'}''),
       Call ''basic_calculator'' (PStr ''{"num1": 5, "operation": "add", "num2": 5}''),
       PrintColored (nl @ nl @ ''The answer is: 10.'' @ nl @ ''Calculated with basic_calculator.'') Cyan],
      Ret PNone)\<close>
proof -
  let ?t = \<open>json_dumps (decision ''basic_calculator'' (PStr ''{"num1": 5, "operation": "add", "num2": 5}''))\<close>
  have body: "response_json (json_dumps (PDict [(''response'', PStr ?t)])) = Ret (PDict [(''response'', PStr ?t)])"
    by code_simp
  have loads: \<open>json_loads ?t = Ret (decision ''basic_calculator'' (PStr ''{"num1": 5, "operation": "add", "num2": 5}''))\<close>
    by code_simp
  have str: \<open>py_str (decision ''basic_calculator'' (PStr ''{"num1": 5, "operation": "add", "num2": 5}'')) =
               ''{'tool_choice': 'basic_calculator', 'tool_input': '{"num1": 5, "operation": "add", "num2": 5}'}''\<close>
    by code_simp
  have calc: \<open>basic_calculator (PStr ''{"num1": 5, "operation": "add", "num2": 5}'') =
     Ret (PStr (nl @ nl @ ''The answer is: 10.'' @ nl @ ''Calculated with basic_calculator.''))\<close>
    by code_simp
  have think: \<open>think notebook_agent (reply_text ?t) ''What is 5+5?'' =
      ([Print (nl @ nl @ ''Response from model: {'tool_choice': 'basic_calculator', 'tool_input': '{"num1": 5, "operation": "add", "num2": 5}'}'')],
       Ret (decision ''basic_calculator'' (PStr ''{"num1": 5, "operation": "add", "num2": 5}'')))\<close>
    unfolding notebook_think [OF body] loads using str by (simp add: decision_def)
  show ?thesis
    unfolding work_def think by (simp add: Agent_execute_tool_calculator calc)
qed

lemma think_returns:
  assumes "think self post prompt = (out1, Ret response)"
  shows "out1 = [Print (nl @ nl @ ''Response from model: '' @ py_str response)] \<or>
         (\<exists>msg. out1 = [Print (''Error in invoking model! '' @ msg)] \<and>
                response = PDict [(''error'', PStr msg)])"
  using assms by (auto simp: think_def Let_def split: result.splits if_splits)

lemma Agent_loop_returns:
  assumes "Agent_execute_tool_loop ts tool_choice tool_input = (out2, Ret x)"
  shows "x = PNone \<and>
         ((\<forall>t\<in>set ts. PStr (tool_name t) \<noteq> tool_choice) \<and>
          out2 = [PrintColored (''Tool '' @ py_str tool_choice @ '' not found or unsupported operation.'') Red] \<or>
          (\<exists>t\<in>set ts. \<exists>result. PStr (tool_name t) = tool_choice \<and> tool_call t tool_input = Ret result \<and>
             out2 = [Call (tool_name t) tool_input, PrintColored (py_str result) Cyan]) \<or>
          (\<exists>t\<in>set ts. \<exists>e. PStr (tool_name t) = tool_choice \<and> tool_call t tool_input = Raise e \<and>
             out2 = [Call (tool_name t) tool_input,
                     PrintColored (''Error executing tool '' @ tool_name t @ '': '' @ exn_str e) Red]))"
  using assms
proof (induction ts)
  case Nil
  then show ?case by (auto split: if_splits)
next
  case (Cons t ts)
  show ?case
  proof (cases "PStr (tool_name t) = tool_choice")
    case True
    then show ?thesis
      using Cons.prems by (auto split: result.splits if_splits)
  next
    case False
    then have "Agent_execute_tool_loop ts tool_choice tool_input = (out2, Ret x)"
      using Cons.prems by simp
    from Cons.IH [OF this] False show ?thesis
      by auto
  qed
qed

lemma Agent_loop_None:
  "Agent_execute_tool_loop ts PNone tool_input =
     ([PrintColored ''Tool None not found or unsupported operation.'' Red], Ret PNone)"
  by (induction ts) auto

lemma Agent_execute_tool_error_response:
  "Agent_execute_tool self (PDict [(''error'', PStr msg)]) =
     ([PrintColored ''Tool None not found or unsupported operation.'' Red], Ret PNone)"
  by (simp add: Agent_execute_tool_def py_get_def Agent_loop_None)

text \<open>The turn in which the request to the service fails.\<close>

lemma work_on_request_failure:
  assumes fmt: "py_format (system_prompt self) (tool_descriptions self) = Ret system"
      and cfg: "str_defined (temperature self)" "str_defined (stop self)"
      and post: "\<And>data. post (model_endpoint self) (headers self) data = Raise (Exn RequestException msg)"
  shows "work self post prompt =
           ([Print (''Error in invoking model! '' @ msg),
             PrintColored ''Tool None not found or unsupported operation.'' Red], Ret PNone)"
proof -
  have "think self post prompt =
          ([Print (''Error in invoking model! '' @ msg)], Ret (PDict [(''error'', PStr msg)]))"
    using fmt cfg post by (simp add: think_def ask_model_def rbind_def Let_def)
  then show ?thesis
    by (simp add: work_def Agent_execute_tool_error_response)
qed

text \<open>
  Claim C4, amended.  When \<^verbatim>\<open>work\<close> returns, it returns \<^verbatim>\<open>None\<close>.  \<^verbatim>\<open>think\<close> returned a response
  and \<^verbatim>\<open>execute_tool\<close> returned \<^verbatim>\<open>None\<close> for that response; what the turn produced is what the
  two printed, in this order.  \<^verbatim>\<open>think\<close> printed one line: the response, or, when the request
  failed, the error, and then the response is the dictionary of the error and
  \<^verbatim>\<open>execute_tool\<close> prints that the tool \<^verbatim>\<open>None\<close> was not found.  \<^verbatim>\<open>execute_tool\<close> printed one
  line: in red that \<^verbatim>\<open>tool_choice\<close> was not found, when no tool has that name; in cyan the
  result of the tool of that name; or in red the exception that this tool raised.
\<close>

theorem work_returns_None:
  assumes "work self post prompt = (out, Ret r)"
  shows "r = PNone \<and>
         (\<exists>response out1 out2.
            think self post prompt = (out1, Ret response) \<and>
            Agent_execute_tool self response = (out2, Ret PNone) \<and>
            out = out1 @ out2 \<and>
            (out1 = [Print (nl @ nl @ ''Response from model: '' @ py_str response)] \<or>
             (\<exists>msg. out1 = [Print (''Error in invoking model! '' @ msg)] \<and>
                    response = PDict [(''error'', PStr msg)] \<and>
                    out2 = [PrintColored ''Tool None not found or unsupported operation.'' Red])) \<and>
            (\<exists>tool_choice tool_input.
               py_get response ''tool_choice'' = Ret tool_choice \<and>
               py_get response ''tool_input'' = Ret tool_input \<and>
               ((\<forall>t\<in>set (tools self). PStr (tool_name t) \<noteq> tool_choice) \<and>
                out2 = [PrintColored (''Tool '' @ py_str tool_choice @ '' not found or unsupported operation.'') Red] \<or>
                (\<exists>t\<in>set (tools self). \<exists>result.
                   PStr (tool_name t) = tool_choice \<and> tool_call t tool_input = Ret result \<and>
                   out2 = [Call (tool_name t) tool_input, PrintColored (py_str result) Cyan]) \<or>
                (\<exists>t\<in>set (tools self). \<exists>e.
                   PStr (tool_name t) = tool_choice \<and> tool_call t tool_input = Raise e \<and>
                   out2 = [Call (tool_name t) tool_input,
                           PrintColored (''Error executing tool '' @ tool_name t @ '': '' @ exn_str e) Red]))))"
proof -
  obtain out1 r1 where t: "think self post prompt = (out1, r1)"
    by (cases "think self post prompt")
  obtain response where r1: "r1 = Ret response"
    using assms t by (cases r1) (auto simp: work_def)
  obtain out2 r2 where e: "Agent_execute_tool self response = (out2, r2)"
    by (cases "Agent_execute_tool self response")
  obtain x where r2: "r2 = Ret x"
    using assms t r1 e by (cases r2) (auto simp: work_def)
  obtain tool_choice tool_input where
    g: "py_get response ''tool_choice'' = Ret tool_choice" "py_get response ''tool_input'' = Ret tool_input"
    and loop: "Agent_execute_tool_loop (tools self) tool_choice tool_input = (out2, Ret x)"
    using e r2 by (auto simp: Agent_execute_tool_def split: result.splits)
  note L = Agent_loop_returns [OF loop]
  have x: "x = PNone"
    using L by simp
  have first: "out1 = [Print (nl @ nl @ ''Response from model: '' @ py_str response)] \<or>
             (\<exists>msg. out1 = [Print (''Error in invoking model! '' @ msg)] \<and>
                    response = PDict [(''error'', PStr msg)] \<and>
                    out2 = [PrintColored ''Tool None not found or unsupported operation.'' Red])"
    using think_returns [OF t [unfolded r1]] e Agent_execute_tool_error_response [of self] by auto
  have res: "r = PNone" "out = out1 @ out2"
    using assms t r1 e r2 by (auto simp: work_def)
  show ?thesis
    using res t r1 e r2 x first g L [THEN conjunct2] by blast
qed

theorem work_returns_None_witness:
  "\<exists>out out1 out2 response.
     work notebook_agent (reply_text (json_dumps (decision ''no tool'' (PStr ''hello'')))) ''Say hello'' =
       (out, Ret PNone) \<and>
     think notebook_agent (reply_text (json_dumps (decision ''no tool'' (PStr ''hello'')))) ''Say hello'' =
       (out1, Ret response) \<and>
     Agent_execute_tool notebook_agent response = (out2, Ret PNone) \<and>
     out = out1 @ out2 \<and>
     out1 = [Print (nl @ nl @ ''Response from model: '' @ py_str response)] \<and>
     out2 = [PrintColored ''Tool no tool not found or unsupported operation.'' Red]"
proof -
  let ?t = "json_dumps (decision ''no tool'' (PStr ''hello''))"
  have body: "response_json (json_dumps (PDict [(''response'', PStr ?t)])) = Ret (PDict [(''response'', PStr ?t)])"
    by code_simp
  have loads: "json_loads ?t = Ret (decision ''no tool'' (PStr ''hello''))"
    by code_simp
  have think: "think notebook_agent (reply_text ?t) ''Say hello'' =
      ([Print (nl @ nl @ ''Response from model: '' @ py_str (decision ''no tool'' (PStr ''hello'')))],
       Ret (decision ''no tool'' (PStr ''hello'')))"
    unfolding notebook_think [OF body] loads by (simp add: decision_def)
  then obtain out where w: "work notebook_agent (reply_text ?t) ''Say hello'' = (out, Ret PNone)"
    by (auto simp: work_def Agent_execute_tool_no_tool)
  show ?thesis
    using work_returns_None [OF w] w think Agent_execute_tool_no_tool [of "PStr ''hello''"] by auto
qed


text \<open>
  Claim C6 as stated fails: the service generates a text that is not JSON, and
  \<^verbatim>\<open>json.loads\<close> raises \<^verbatim>\<open>JSONDecodeError\<close> inside \<^verbatim>\<open>think\<close>, whose \<^verbatim>\<open>except\<close> clause names
  \<^verbatim>\<open>requests.RequestException\<close> only.  The exception leaves \<^verbatim>\<open>think\<close> and \<^verbatim>\<open>work\<close>; nothing is
  printed and no value is returned.
\<close>

theorem unparseable_reply_example:
  "think notebook_agent (reply_text ''The answer is 10'') ''What is 5+5?'' =
     ([], Raise (Exn JSONDecodeError ''Expecting value: line 1 column 1 (char 0)'')) \<and>
   work notebook_agent (reply_text ''The answer is 10'') ''What is 5+5?'' =
     ([], Raise (Exn JSONDecodeError ''Expecting value: line 1 column 1 (char 0)''))"
proof -
  have body: "response_json (json_dumps (PDict [(''response'', PStr ''The answer is 10'')])) =
              Ret (PDict [(''response'', PStr ''The answer is 10'')])"
    by code_simp
  have loads: "json_loads ''The answer is 10'' =
               Raise (Exn JSONDecodeError ''Expecting value: line 1 column 1 (char 0)'')"
    by code_simp
  have "think notebook_agent (reply_text ''The answer is 10'') ''What is 5+5?'' =
          ([], Raise (Exn JSONDecodeError ''Expecting value: line 1 column 1 (char 0)''))"
    unfolding notebook_think [OF body] loads by simp
  then show ?thesis
    by (simp add: work_def)
qed

text \<open>
  Claim C6, amended.  The service answers with a body whose \<^verbatim>\<open>response\<close> field is the text
  \<open>t\<close>.  When \<^verbatim>\<open>json.loads(t)\<close> raises, the exception is a \<^verbatim>\<open>JSONDecodeError\<close>, it leaves
  \<^verbatim>\<open>think\<close> and \<^verbatim>\<open>work\<close> uncaught, and nothing is printed.  When \<open>t\<close> is JSON, \<^verbatim>\<open>think\<close>
  returns the decoded value as it is, whatever its keys are.
\<close>

theorem unparseable_reply_raises:
  assumes fmt: "py_format (system_prompt self) (tool_descriptions self) = Ret system"
      and cfg: "str_defined (temperature self)" "str_defined (stop self)"
      and post: "\<And>data. post (model_endpoint self) (headers self) data = Ret body"
      and body: "response_json body = Ret reply"
      and resp: "py_getitem reply ''response'' = Ret (PStr t)"
  shows "(\<forall>e. json_loads t = Raise e \<longrightarrow>
            exn_class_of e = JSONDecodeError \<and>
            think self post prompt = ([], Raise e) \<and>
            work self post prompt = ([], Raise e)) \<and>
         (\<forall>v. json_loads t = Ret v \<longrightarrow> str_defined v \<longrightarrow>
            think self post prompt = ([Print (nl @ nl @ ''Response from model: '' @ py_str v)], Ret v))"
  using think_on_reply [where post = post, OF fmt cfg post body resp, of prompt]
  by (auto simp: work_def dest: json_loads_raises_JSONDecodeError)

theorem unparseable_reply_raises_witness:
  \<open>json_loads ''{"tool_choice": "basic_calculator"'' =
     Raise (Exn JSONDecodeError ''Expecting ',' delimiter: line 1 column 35 (char 34)'') \<and>
   think notebook_agent (reply_text ''{"tool_choice": "basic_calculator"'') ''What is 5+5?'' =
     ([], Raise (Exn JSONDecodeError ''Expecting ',' delimiter: line 1 column 35 (char 34)'')) \<and>
   work notebook_agent (reply_text ''{"tool_choice": "basic_calculator"'') ''What is 5+5?'' =
     ([], Raise (Exn JSONDecodeError ''Expecting ',' delimiter: line 1 column 35 (char 34)''))\<close>
proof -
  let ?t = \<open>''{"tool_choice": "basic_calculator"''\<close>
  obtain system where fmt: "py_format (system_prompt notebook_agent) (tool_descriptions notebook_agent) = Ret system"
    using notebook_format by blast
  have post: "\<And>data. reply_text ?t (model_endpoint notebook_agent) (headers notebook_agent) data =
                 Ret (json_dumps (PDict [(''response'', PStr ?t)]))"
    by (simp add: reply_text_def)
  have body: "response_json (json_dumps (PDict [(''response'', PStr ?t)])) = Ret (PDict [(''response'', PStr ?t)])"
    by code_simp
  have resp: "py_getitem (PDict [(''response'', PStr ?t)]) ''response'' = Ret (PStr ?t)"
    by (simp add: py_getitem_def)
  have loads: \<open>json_loads ?t = Raise (Exn JSONDecodeError ''Expecting ',' delimiter: line 1 column 35 (char 34)'')\<close>
    by code_simp
  show ?thesis
    using unparseable_reply_raises [where post = "reply_text ?t", OF fmt notebook_cfg post body resp,
        of "''What is 5+5?''"] loads
    by simp
qed

text \<open>
  Claim C8 as stated fails: \<^verbatim>\<open>think\<close> hands the generated text to \<^verbatim>\<open>json.loads\<close> as it is.
  A text written with single quotes is refused, although the same text cleaned the way
  \<^verbatim>\<open>basic_calculator\<close> cleans its input decodes to a decision.
\<close>

theorem single_quoted_reply_rejected:
  \<open>think notebook_agent (reply_text ''{'tool_choice': 'no tool', 'tool_input': 'hi'}'') ''Say hi'' =
     ([], Raise (Exn JSONDecodeError
                   ''Expecting property name enclosed in double quotes: line 1 column 2 (char 1)'')) \<and>
   json_loads (input_str_clean ''{'tool_choice': 'no tool', 'tool_input': 'hi'}'') =
     Ret (decision ''no tool'' (PStr ''hi''))\<close>
proof -
  let ?t = \<open>''{'tool_choice': 'no tool', 'tool_input': 'hi'}''\<close>
  have body: "response_json (json_dumps (PDict [(''response'', PStr ?t)])) = Ret (PDict [(''response'', PStr ?t)])"
    by code_simp
  have loads: "json_loads ?t =
      Raise (Exn JSONDecodeError ''Expecting property name enclosed in double quotes: line 1 column 2 (char 1)'')"
    by code_simp
  have clean: "json_loads (input_str_clean ?t) = Ret (decision ''no tool'' (PStr ''hi''))"
    by code_simp
  have "think notebook_agent (reply_text ?t) ''Say hi'' =
      ([], Raise (Exn JSONDecodeError
                    ''Expecting property name enclosed in double quotes: line 1 column 2 (char 1)''))"
    unfolding notebook_think [OF body] loads by simp
  then show ?thesis
    using clean by simp
qed

lemma strip_where_wrap:
  assumes "\<forall>c\<in>set w1. p c" and "\<forall>c\<in>set w2. p c"
  shows "strip_where p (w1 @ s @ w2) = strip_where p s"
proof -
  have front: "dropWhile p (w1 @ s @ w2) = dropWhile p (s @ w2)"
    using assms(1) by (simp add: dropWhile_append2)
  show ?thesis
  proof (cases "\<forall>c\<in>set s. p c")
    case True
    then have a: "dropWhile p (s @ w2) = []" and b: "dropWhile p s = []"
      using assms(2) by (simp_all add: dropWhile_eq_Nil_conv)
    show ?thesis
      unfolding strip_where_def front a b by simp
  next
    case False
    then obtain c where "c \<in> set s" and "\<not> p c"
      by blast
    then have c: "dropWhile p (s @ w2) = dropWhile p s @ w2"
      by (rule dropWhile_append1)
    have "dropWhile p (rev w2 @ rev (dropWhile p s)) = dropWhile p (rev (dropWhile p s))"
      using assms(2) by (intro dropWhile_append2) simp
    then show ?thesis
      unfolding strip_where_def front c by simp
  qed
qed

lemma py_replace_swap:
  "py_replace (CHR 0x27) (CHR 0x22) (py_replace (CHR 0x22) (CHR 0x27) s) = py_replace (CHR 0x27) (CHR 0x22) s"
  by (induction s) (auto simp: py_replace_def)

lemma py_replace_whitespace:
  "\<forall>c\<in>set w. is_space c \<Longrightarrow> py_replace (CHR 0x27) (CHR 0x22) w = w"
  by (induction w) (auto simp: py_replace_def is_space_def)

lemma py_replace_append: "py_replace a b (xs @ ys) = py_replace a b xs @ py_replace a b ys"
  by (simp add: py_replace_def)

lemma input_str_clean_wrap:
  assumes "\<forall>c\<in>set w1. is_space c" and "\<forall>c\<in>set w2. is_space c"
  shows "input_str_clean (w1 @ py_replace (CHR 0x22) (CHR 0x27) s @ w2) = input_str_clean s"
  using assms
  by (simp add: input_str_clean_def py_replace_append py_replace_swap py_replace_whitespace
      py_strip_def strip_where_wrap)

lemma strip_where_id:
  assumes "s \<noteq> []" and "\<not> p (hd s)" and "\<not> p (last s)"
  shows "strip_where p s = s"
proof -
  have a: "dropWhile p s = s"
    using assms(1,2) by (cases s) auto
  have "rev s \<noteq> []" "\<not> p (hd (rev s))"
    using assms(1,3) by (simp_all add: hd_rev)
  then have b: "dropWhile p (rev s) = rev s"
    by (cases "rev s") auto
  show ?thesis
    unfolding strip_where_def a b by simp
qed

lemma py_replace_quotes:
  "set q \<subseteq> {CHR 0x27, CHR 0x22} \<Longrightarrow> py_replace (CHR 0x27) (CHR 0x22) q = replicate (length q) (CHR 0x22)"
  by (induction q) (auto simp: py_replace_def)

lemma input_str_clean_quoted:
  assumes ws: "\<forall>c\<in>set w1. is_space c" "\<forall>c\<in>set w2. is_space c"
      and quotes: "set q1 \<subseteq> {CHR 0x27, CHR 0x22}" "set q2 \<subseteq> {CHR 0x27, CHR 0x22}"
      and core: "s \<noteq> []" "\<not> is_space (hd s)" "\<not> is_space (last s)"
  shows "input_str_clean (w1 @ q1 @ py_replace (CHR 0x22) (CHR 0x27) s @ q2 @ w2) = input_str_clean s"
proof -
  define c where "c = py_replace (CHR 0x27) (CHR 0x22) s"
  define Q1 where "Q1 = replicate (length q1) (CHR 0x22)"
  define Q2 where "Q2 = replicate (length q2) (CHR 0x22)"
  have not_space: "\<not> is_space (CHR 0x22)"
    by (simp add: is_space_def)
  have c: "c \<noteq> []" "\<not> is_space (hd c)" "\<not> is_space (last c)"
    using core not_space by (simp_all add: c_def py_replace_def hd_map last_map)
  have replaced: "py_replace (CHR 0x27) (CHR 0x22) (w1 @ q1 @ py_replace (CHR 0x22) (CHR 0x27) s @ q2 @ w2) =
                  w1 @ (Q1 @ c @ Q2) @ w2"
    using ws quotes
    by (simp add: py_replace_append py_replace_swap py_replace_whitespace py_replace_quotes c_def Q1_def Q2_def)
  have x: "Q1 @ c @ Q2 \<noteq> []" "\<not> is_space (hd (Q1 @ c @ Q2))" "\<not> is_space (last (Q1 @ c @ Q2))"
  proof -
    show "Q1 @ c @ Q2 \<noteq> []"
      using c(1) by simp
    show "\<not> is_space (hd (Q1 @ c @ Q2))"
      using c(1,2) not_space by (cases q1) (auto simp: Q1_def hd_append)
    have "last (c @ Q2) = (if q2 = [] then last c else CHR 0x22)"
      using c(1) by (cases q2) (auto simp: Q2_def last_append)
    then show "\<not> is_space (last (Q1 @ c @ Q2))"
      using c(1,3) not_space by simp
  qed
  have "py_strip (w1 @ (Q1 @ c @ Q2) @ w2) = Q1 @ c @ Q2"
    unfolding py_strip_def strip_where_wrap [OF ws] by (rule strip_where_id [OF x])
  moreover have "py_strip_chars dq (Q1 @ c @ Q2) = py_strip_chars dq c"
    unfolding py_strip_chars_def by (rule strip_where_wrap) (simp_all add: Q1_def Q2_def)
  moreover have "py_strip c = c"
    unfolding py_strip_def by (rule strip_where_id [OF c])
  ultimately show ?thesis
    unfolding input_str_clean_def replaced c_def [symmetric] by simp
qed

text \<open>
  Claim C8, amended.  The model client does not clean the generated text: \<^verbatim>\<open>think\<close> gives
  what \<^verbatim>\<open>json.loads\<close> gives for the text as it is.  The cleaning is in \<^verbatim>\<open>basic_calculator\<close>:
  an input written with single quotes in place of double quotes, with whitespace around it,
  has the result of the input itself; and so has an input that neither begins nor ends with
  whitespace, written with single quotes, wrapped in quote characters and then in
  whitespace.
\<close>

theorem calculator_cleans_its_input:
  assumes fmt: "py_format (system_prompt self) (tool_descriptions self) = Ret system"
      and cfg: "str_defined (temperature self)" "str_defined (stop self)"
      and post: "\<And>data. post (model_endpoint self) (headers self) data = Ret body"
      and body: "response_json body = Ret reply"
      and resp: "py_getitem reply ''response'' = Ret (PStr t)"
      and ws: "\<forall>c\<in>set w1. is_space c" "\<forall>c\<in>set w2. is_space c"
  shows "think self post prompt =
           (case json_loads t of
              Ret response_dict \<Rightarrow>
                if str_defined response_dict
                then ([Print (nl @ nl @ ''Response from model: '' @ py_str response_dict)], Ret response_dict)
                else ([], Unmodelled)
            | Raise e \<Rightarrow> ([], Raise e)
            | Unmodelled \<Rightarrow> ([], Unmodelled)) \<and>
         basic_calculator (PStr (w1 @ py_replace (CHR 0x22) (CHR 0x27) s @ w2)) = basic_calculator (PStr s) \<and>
         (set q1 \<subseteq> {CHR 0x27, CHR 0x22} \<longrightarrow> set q2 \<subseteq> {CHR 0x27, CHR 0x22} \<longrightarrow>
          c \<noteq> [] \<longrightarrow> \<not> is_space (hd c) \<longrightarrow> \<not> is_space (last c) \<longrightarrow>
            basic_calculator (PStr (w1 @ q1 @ py_replace (CHR 0x22) (CHR 0x27) c @ q2 @ w2)) =
              basic_calculator (PStr c))"
  using think_on_reply [where post = post, OF fmt cfg post body resp, of prompt] input_str_clean_wrap [OF ws]
    input_str_clean_quoted [OF ws]
  by (simp add: basic_calculator_def read_input_def)

theorem calculator_cleans_its_input_witness:
  \<open>think notebook_agent (reply_text ''{"tool_choice": "no tool", "tool_input": "hi"}'') ''Say hi'' =
     ([Print (nl @ nl @ ''Response from model: {'tool_choice': 'no tool', 'tool_input': 'hi'}'')],
      Ret (decision ''no tool'' (PStr ''hi''))) \<and>
   basic_calculator (PStr ('' '' @ ''{'num1': 5, 'num2': 5, 'operation': 'add'}'' @ nl)) =
     Ret (PStr (nl @ nl @ ''The answer is: 10.'' @ nl @ ''Calculated with basic_calculator.'')) \<and>
   basic_calculator (PStr ('' '' @ dq @ ''{'num1': 5, 'num2': 5, 'operation': 'add'}'' @ (sq @ dq) @ nl)) =
     Ret (PStr (nl @ nl @ ''The answer is: 10.'' @ nl @ ''Calculated with basic_calculator.''))\<close>
proof -
  let ?t = \<open>''{"tool_choice": "no tool", "tool_input": "hi"}''\<close>
  let ?s = \<open>''{"num1": 5, "num2": 5, "operation": "add"}''\<close>
  obtain system where fmt: "py_format (system_prompt notebook_agent) (tool_descriptions notebook_agent) = Ret system"
    using notebook_format by blast
  have post: "\<And>data. reply_text ?t (model_endpoint notebook_agent) (headers notebook_agent) data =
                 Ret (json_dumps (PDict [(''response'', PStr ?t)]))"
    by (simp add: reply_text_def)
  have body: "response_json (json_dumps (PDict [(''response'', PStr ?t)])) = Ret (PDict [(''response'', PStr ?t)])"
    by code_simp
  have resp: "py_getitem (PDict [(''response'', PStr ?t)]) ''response'' = Ret (PStr ?t)"
    by (simp add: py_getitem_def)
  have ws: "\<forall>c\<in>set '' ''. is_space c" "\<forall>c\<in>set nl. is_space c"
    by (simp_all add: is_space_def)
  have loads: "json_loads ?t = Ret (decision ''no tool'' (PStr ''hi''))"
    by code_simp
  have str: \<open>py_str (decision ''no tool'' (PStr ''hi'')) = ''{'tool_choice': 'no tool', 'tool_input': 'hi'}''\<close>
    by code_simp
  have swap: \<open>py_replace (CHR 0x22) (CHR 0x27) ?s = ''{'num1': 5, 'num2': 5, 'operation': 'add'}''\<close>
    by (simp add: py_replace_def)
  have defined: "str_defined (decision ''no tool'' (PStr ''hi''))"
    by (simp add: decision_def)
  have quotes: "set dq \<subseteq> {CHR 0x27, CHR 0x22}" "set (sq @ dq) \<subseteq> {CHR 0x27, CHR 0x22}"
    by simp_all
  have core: "?s \<noteq> []" "\<not> is_space (hd ?s)" "\<not> is_space (last ?s)"
    by (simp_all add: is_space_def)
  note T = calculator_cleans_its_input [where post = "reply_text ?t" and s = ?s and c = ?s
      and ?q1.0 = dq and ?q2.0 = "sq @ dq", OF fmt notebook_cfg post body resp ws, of "''Say hi''"]
  have t1: \<open>think notebook_agent (reply_text ?t) ''Say hi'' =
     ([Print (nl @ nl @ ''Response from model: {'tool_choice': 'no tool', 'tool_input': 'hi'}'')],
      Ret (decision ''no tool'' (PStr ''hi'')))\<close>
    using T [THEN conjunct1] by (simp add: loads str defined)
  have t2: \<open>basic_calculator (PStr ('' '' @ ''{'num1': 5, 'num2': 5, 'operation': 'add'}'' @ nl)) =
     Ret (PStr (nl @ nl @ ''The answer is: 10.'' @ nl @ ''Calculated with basic_calculator.''))\<close>
    using T [THEN conjunct2, THEN conjunct1] unfolding swap calculator_add .
  have t3: \<open>basic_calculator (PStr ('' '' @ dq @ ''{'num1': 5, 'num2': 5, 'operation': 'add'}'' @ (sq @ dq) @ nl)) =
     Ret (PStr (nl @ nl @ ''The answer is: 10.'' @ nl @ ''Calculated with basic_calculator.''))\<close>
    using T [THEN conjunct2, THEN conjunct2, rule_format, OF quotes core] unfolding swap calculator_add .
  show ?thesis
    by (intro conjI t1 t2 t3)
qed


subsection \<open>The results of the calculator\<close>

text \<open>
  Claim C10 as stated fails: the input \<^verbatim>\<open>5\<close> is JSON without the three keys, and the
  calculator does not return a pair for it.  The subscript \<^verbatim>\<open>input_dict["num1"]\<close> raises
  \<^verbatim>\<open>TypeError\<close>, which \<^verbatim>\<open>except (json.JSONDecodeError, KeyError)\<close> does not catch.
\<close>

theorem calculator_raises_on_a_number:
  "basic_calculator (PStr ''5'') = Raise (Exn TypeError (sq @ ''int'' @ sq @ '' object is not subscriptable''))"
  by code_simp

lemma read_input_dict:
  assumes "json_loads (input_str_clean s) = Ret (PDict d)"
      and "map_of d ''num1'' = Some a" and "map_of d ''num2'' = Some b" and "map_of d ''operation'' = Some c"
  shows "read_input (PStr s) = Ret (a, b, c)"
  using assms by (simp add: read_input_def py_getitem_def)

lemma read_input_missing_key:
  assumes "json_loads (input_str_clean s) = Ret (PDict d)" and "missing_key d = Some k"
  shows "read_input (PStr s) = Raise (Exn KeyError (sq @ k @ sq))"
proof -
  have r: "repr_str ''num1'' = sq @ ''num1'' @ sq" "repr_str ''num2'' = sq @ ''num2'' @ sq"
      "repr_str ''operation'' = sq @ ''operation'' @ sq"
    by (simp_all add: repr_str_def repr_char_def printable_def Let_def)
  show ?thesis
    using assms
    by (auto simp: read_input_def py_getitem_def missing_key_def r split: if_splits option.splits)
qed

text \<open>
  Claim C10, amended.  \<open>input_str_clean s\<close> is the input after the cleaning.  When
  \<^verbatim>\<open>json.loads\<close> refuses it, or when it decodes to a dictionary that lacks one of the three
  keys, the calculator returns the pair of the message and the hint
  \<^verbatim>\<open>Invalid input format\<close>.  When the operation is in the table and raises, it returns the
  pair of the message and \<^verbatim>\<open>Error during operation execution\<close>.  When the operation is a
  name that is not in the table, it returns the one string \<^verbatim>\<open>Unsupported operation\<close>.
\<close>

theorem calculator_error_results:
  "(\<forall>e. json_loads (input_str_clean s) = Raise e \<longrightarrow>
      basic_calculator (PStr s) =
        Ret (PTuple [PStr (exn_str e), PStr ''Invalid input format. Please provide a valid JSON string.''])) \<and>
   (\<forall>d k. json_loads (input_str_clean s) = Ret (PDict d) \<longrightarrow> missing_key d = Some k \<longrightarrow>
      basic_calculator (PStr s) =
        Ret (PTuple [PStr (sq @ k @ sq), PStr ''Invalid input format. Please provide a valid JSON string.''])) \<and>
   (\<forall>d a b name f e.
      json_loads (input_str_clean s) = Ret (PDict d) \<longrightarrow>
      map_of d ''num1'' = Some a \<longrightarrow> map_of d ''num2'' = Some b \<longrightarrow>
      map_of d ''operation'' = Some (PStr name) \<longrightarrow>
      map_of operations name = Some f \<longrightarrow> f a b = Raise e \<longrightarrow> is_Exception e \<longrightarrow>
      basic_calculator (PStr s) =
        Ret (PTuple [PStr (exn_str e), PStr (nl @ nl @ ''Error during operation execution.'')])) \<and>
   (\<forall>d a b name.
      json_loads (input_str_clean s) = Ret (PDict d) \<longrightarrow>
      map_of d ''num1'' = Some a \<longrightarrow> map_of d ''num2'' = Some b \<longrightarrow>
      map_of d ''operation'' = Some (PStr name) \<longrightarrow>
      map_of operations name = None \<longrightarrow>
      basic_calculator (PStr s) =
        Ret (PStr (nl @ nl @ ''Unsupported operation. Please provide a valid operation.'')))"
proof (intro conjI allI impI)
  fix e
  assume "json_loads (input_str_clean s) = Raise e"
  then show "basic_calculator (PStr s) =
      Ret (PTuple [PStr (exn_str e), PStr ''Invalid input format. Please provide a valid JSON string.''])"
    by (auto simp: basic_calculator_def read_input_def dest: json_loads_raises_JSONDecodeError)
next
  fix d k
  assume "json_loads (input_str_clean s) = Ret (PDict d)" and "missing_key d = Some k"
  then have "read_input (PStr s) = Raise (Exn KeyError (sq @ k @ sq))"
    by (rule read_input_missing_key)
  then show "basic_calculator (PStr s) =
      Ret (PTuple [PStr (sq @ k @ sq), PStr ''Invalid input format. Please provide a valid JSON string.''])"
    by (simp add: basic_calculator_def)
next
  fix d a b name f e
  assume "json_loads (input_str_clean s) = Ret (PDict d)"
    and "map_of d ''num1'' = Some a" and "map_of d ''num2'' = Some b"
    and "map_of d ''operation'' = Some (PStr name)"
    and f: "map_of operations name = Some f" "f a b = Raise e" "is_Exception e"
  then have "read_input (PStr s) = Ret (a, b, PStr name)"
    by (simp add: read_input_dict)
  then show "basic_calculator (PStr s) =
      Ret (PTuple [PStr (exn_str e), PStr (nl @ nl @ ''Error during operation execution.'')])"
    using f by (simp add: basic_calculator_def find_operation_def)
next
  fix d a b name
  assume "json_loads (input_str_clean s) = Ret (PDict d)"
    and "map_of d ''num1'' = Some a" and "map_of d ''num2'' = Some b"
    and "map_of d ''operation'' = Some (PStr name)"
    and f: "map_of operations name = None"
  then have "read_input (PStr s) = Ret (a, b, PStr name)"
    by (simp add: read_input_dict)
  then show "basic_calculator (PStr s) =
      Ret (PStr (nl @ nl @ ''Unsupported operation. Please provide a valid operation.''))"
    using f by (simp add: basic_calculator_def find_operation_def)
qed

theorem calculator_error_results_witness:
  \<open>basic_calculator (PStr ''hello'') =
     Ret (PTuple [PStr ''Expecting value: line 1 column 1 (char 0)'',
                  PStr ''Invalid input format. Please provide a valid JSON string.'']) \<and>
   basic_calculator (PStr ''{"num1": 5, "num2": 7}'') =
     Ret (PTuple [PStr (sq @ ''operation'' @ sq),
                  PStr ''Invalid input format. Please provide a valid JSON string.'']) \<and>
   basic_calculator (PStr ''{"num1": 1, "num2": 0, "operation": "modulus"}'') =
     Ret (PTuple [PStr ''integer modulo by zero'', PStr (nl @ nl @ ''Error during operation execution.'')]) \<and>
   basic_calculator (PStr ''{"num1": 5, "num2": 7, "operation": "sqrt"}'') =
     Ret (PStr (nl @ nl @ ''Unsupported operation. Please provide a valid operation.''))\<close>
proof -
  have j1: "json_loads (input_str_clean ''hello'') =
           Raise (Exn JSONDecodeError ''Expecting value: line 1 column 1 (char 0)'')"
    by code_simp
  have j2: \<open>json_loads (input_str_clean ''{"num1": 5, "num2": 7}'') =
           Ret (PDict [(''num1'', PInt 5), (''num2'', PInt 7)])\<close>
    by code_simp
  have k2: "missing_key [(''num1'', PInt 5), (''num2'', PInt 7)] = Some ''operation''"
    by (simp add: missing_key_def)
  have j3: \<open>json_loads (input_str_clean ''{"num1": 1, "num2": 0, "operation": "modulus"}'') =
           Ret (PDict [(''num1'', PInt 1), (''num2'', PInt 0), (''operation'', PStr ''modulus'')])\<close>
    by code_simp
  have f3: "map_of operations ''modulus'' = Some operator_mod"
    by (simp add: operations_def)
  have r3: "operator_mod (PInt 1) (PInt 0) = Raise (Exn ZeroDivisionError ''integer modulo by zero'')"
    by (simp add: operator_mod_def on_ints_def)
  have j4: \<open>json_loads (input_str_clean ''{"num1": 5, "num2": 7, "operation": "sqrt"}'') =
           Ret (PDict [(''num1'', PInt 5), (''num2'', PInt 7), (''operation'', PStr ''sqrt'')])\<close>
    by code_simp
  have f4: "map_of operations ''sqrt'' = None"
    by (simp add: operations_def)
  show ?thesis
    using calculator_error_results [of "''hello''"] j1
      calculator_error_results [of \<open>''{"num1": 5, "num2": 7}''\<close>] j2 k2
      calculator_error_results [of \<open>''{"num1": 1, "num2": 0, "operation": "modulus"}''\<close>] j3 f3 r3
      calculator_error_results [of \<open>''{"num1": 5, "num2": 7, "operation": "sqrt"}''\<close>] j4 f4
    by (simp add: is_Exception_def)
qed


subsection \<open>Tool descriptions\<close>

lemma py_index_Ret: "i < length xs \<Longrightarrow> py_index xs i = Ret (xs ! i)"
  by (simp add: py_index_def)

lemma rbind_Ret: "rbind (Ret x) f = f x"
  by (simp add: rbind_def)

lemma py_split1_cases: "py_split1 sep s = [s] \<or> (\<exists>a b. py_split1 sep s = [a, b])"
  by (auto simp: py_split1_def split: option.splits)

lemma contains_split_once: "contains sub s \<Longrightarrow> sub \<noteq> [] \<Longrightarrow> split_once sub s \<noteq> None"
  by (induction s) auto

lemma split_aux_nonempty: "split_aux sep acc s \<noteq> []"
  by (induction sep acc s rule: split_aux.induct) auto

lemma dict_set_defined:
  "list_all (\<lambda>kv. str_defined (snd kv)) pd \<Longrightarrow> str_defined v \<Longrightarrow>
   list_all (\<lambda>kv. str_defined (snd kv)) (dict_set pd k v)"
  by (induction pd) auto

lemma parameter_name_and_type:
  "\<exists>name type.
     rbind (py_index (py_split1 ''('' a) 0) (\<lambda>param_name.
     rbind (if contains ''('' a
            then rbind (py_index (py_split1 ''('' a) 1) (\<lambda>rest. py_index (py_split1 '')'' rest) 0)
            else Ret ''str'') (\<lambda>param_type. k param_name param_type)) = k name type"
proof -
  obtain name where n: "py_index (py_split1 ''('' a) 0 = Ret name"
    using py_split1_cases [of "''(''" a] by (auto simp: py_index_def)
  have "\<exists>type. (if contains ''('' a
            then rbind (py_index (py_split1 ''('' a) 1) (\<lambda>rest. py_index (py_split1 '')'' rest) 0)
            else Ret ''str'') = Ret type"
  proof (cases "contains ''('' a")
    case True
    then obtain x y where "split_once ''('' a = Some (x, y)"
      using contains_split_once [of "''(''" a] by auto
    then have "py_index (py_split1 ''('' a) 1 = Ret y"
      by (simp add: py_split1_def py_index_def)
    moreover obtain z where "py_index (py_split1 '')'' y) 0 = Ret z"
      using py_split1_cases [of "'')''" y] by (auto simp: py_index_def)
    ultimately show ?thesis
      using True by (simp add: rbind_def)
  next
    case False
    then show ?thesis by simp
  qed
  then obtain type where t: "(if contains ''('' a
            then rbind (py_index (py_split1 ''('' a) 1) (\<lambda>rest. py_index (py_split1 '')'' rest) 0)
            else Ret ''str'') = Ret type"
    by blast
  show ?thesis
    by (intro exI [of _ name] exI [of _ type]) (simp add: n t rbind_def)
qed

lemma parameter_lines_total:
  "list_all (\<lambda>kv. str_defined (snd kv)) pd \<Longrightarrow>
   \<exists>d' pd'. parameter_lines lines st d pd = Ret (d', pd') \<and> list_all (\<lambda>kv. str_defined (snd kv)) pd'"
proof (induction lines arbitrary: st d pd)
  case Nil
  then show ?case by simp
next
  case (Cons line lines)
  note IH = Cons.IH
  show ?case
  proof (cases "contains ''Parameters:'' line")
    case True
    then show ?thesis using IH [OF Cons.prems] by simp
  next
    case np: False
    show ?thesis
    proof (cases "\<not> st \<or> py_strip line = []")
      case True
      then show ?thesis using np IH [OF Cons.prems, of st d] by auto
    next
      case started: False
      show ?thesis
      proof (cases "contains '': '' line")
        case False
        then show ?thesis using np started IH [OF Cons.prems, of st d] by auto
      next
        case colon: True
        show ?thesis
        proof (cases "length (py_split1 '':'' line) = 2")
          case False
          then show ?thesis using np started colon IH [OF Cons.prems, of st d] by (auto simp: Let_def)
        next
          case True
          then obtain a b where ab: "py_split1 '':'' line = [a, b]"
            using py_split1_cases [of "'':''" line] by auto
          let ?k = "\<lambda>param_name param_type.
              parameter_lines lines st b
                (dict_set pd (py_strip param_name)
                   (PDict [(''param_type'', PStr (py_strip param_type)),
                           (''description'', PStr (py_strip b)),
                           (''required'', PBool True)]))"
          obtain name type where
            "rbind (py_index (py_split1 ''('' a) 0) (\<lambda>param_name.
             rbind (if contains ''('' a
                    then rbind (py_index (py_split1 ''('' a) 1) (\<lambda>rest. py_index (py_split1 '')'' rest) 0)
                    else Ret ''str'') (\<lambda>param_type. ?k param_name param_type)) = ?k name type"
            using parameter_name_and_type [of a ?k] by blast
          moreover have "py_index [a, b] 0 = Ret a" "py_index [a, b] 1 = Ret b"
            by (simp_all add: py_index_def)
          ultimately have "parameter_lines (line # lines) st d pd = ?k name type"
            using np started colon ab by (simp add: rbind_Ret)
          moreover have "list_all (\<lambda>kv. str_defined (snd kv))
              (dict_set pd (py_strip name)
                 (PDict [(''param_type'', PStr (py_strip type)),
                         (''description'', PStr (py_strip b)),
                         (''required'', PBool True)]))"
            using Cons.prems by (simp add: dict_set_defined)
          ultimately show ?thesis
            using IH by simp
        qed
      qed
    qed
  qed
qed


lemma tool_info_total:
  "\<exists>description params.
     tool_info t = Ret (PDict [(''name'', PStr (tool_name t)),
                              (''description'', PStr description),
                              (''parameters'', PDict params)]) \<and>
     list_all (\<lambda>kv. str_defined (snd kv)) params"
proof -
  define docstring where "docstring =
     (case tool_doc t of
        None \<Rightarrow> ''No description available.''
      | Some d \<Rightarrow> if d = [] then ''No description available.'' else py_strip d)"
  define parts where "parts = py_split1 (nl @ nl) docstring"
  obtain first where first: "py_index parts 0 = Ret first"
    using py_split1_cases [of "nl @ nl" docstring] by (auto simp: parts_def py_index_def)
  obtain description where description: "py_index (py_split nl first) 0 = Ret description"
    using split_aux_nonempty [of nl "[]" first] by (auto simp: py_split_def py_index_def)
  obtain sec where sec: "(if 1 < length parts then py_index parts 1 else Ret []) = Ret sec"
    by (cases "1 < length parts") (simp_all add: py_index_def)
  obtain d' params where params:
    "(if contains ''Parameters:'' sec
      then parameter_lines (py_split nl sec) False description []
      else Ret (description, [])) = Ret (d', params)"
    "list_all (\<lambda>kv. str_defined (snd kv)) params"
    using parameter_lines_total [of "[]" "py_split nl sec" False description]
    by (cases "contains ''Parameters:'' sec") auto
  have "tool_info t = Ret (PDict [(''name'', PStr (tool_name t)),
                                  (''description'', PStr d'),
                                  (''parameters'', PDict params)])"
    unfolding tool_info_def Let_def docstring_def [symmetric] parts_def [symmetric]
      first rbind_Ret description sec params(1) fst_conv snd_conv
    by (rule refl)
  then show ?thesis
    using params(2) by blast
qed

lemma describe_tool_total:
  assumes "list_all (\<lambda>kv. str_defined (snd kv)) params"
  shows "is_Ret (describe_tool (PDict [(''name'', PStr name),
                                       (''description'', PStr description),
                                       (''parameters'', PDict params)]))"
  using assms by (simp add: describe_tool_def py_getitem_def rbind_Ret is_Ret_def)

lemma tools_info_total:
  "\<exists>infos. tools_info ts = Ret infos \<and>
           map (\<lambda>info. py_getitem info ''name'') infos = map (\<lambda>t. Ret (PStr (tool_name t))) ts \<and>
           list_all (\<lambda>info. is_Ret (describe_tool info)) infos"
proof (induction ts)
  case Nil
  then show ?case by (simp add: tools_info_def)
next
  case (Cons t ts)
  obtain description params where t:
    "tool_info t = Ret (PDict [(''name'', PStr (tool_name t)),
                               (''description'', PStr description),
                               (''parameters'', PDict params)])"
    "list_all (\<lambda>kv. str_defined (snd kv)) params"
    using tool_info_total by blast
  obtain infos where infos: "tools_info ts = Ret infos"
    "map (\<lambda>info. py_getitem info ''name'') infos = map (\<lambda>t. Ret (PStr (tool_name t))) ts"
    "list_all (\<lambda>info. is_Ret (describe_tool info)) infos"
    using Cons.IH by blast
  have "tools_info (t # ts) =
          Ret (PDict [(''name'', PStr (tool_name t)),
                      (''description'', PStr description),
                      (''parameters'', PDict params)] # infos)"
    using t(1) infos(1) by (simp add: tools_info_def rbind_Ret)
  then show ?case
    using infos(2,3) describe_tool_total [OF t(2)] by (simp add: py_getitem_def)
qed

lemma collect_is_Ret: "list_all (\<lambda>x. is_Ret (f x)) xs \<Longrightarrow> is_Ret (collect f xs)"
  by (induction xs) (auto simp: is_Ret_def rbind_def split: result.splits)

lemma Agent_prepare_tools_total: "is_Ret (Agent_prepare_tools ts)"
proof -
  obtain infos where "tools_info ts = Ret infos" "list_all (\<lambda>info. is_Ret (describe_tool info)) infos"
    using tools_info_total by blast
  then show ?thesis
    using collect_is_Ret [of describe_tool infos]
    by (auto simp: Agent_prepare_tools_def rbind_def is_Ret_def split: result.splits)
qed

lemma contains_prefix: "contains sub (sub @ b)"
proof (cases "sub @ b")
  case Nil
  then show ?thesis by simp
next
  case (Cons c cs)
  have "startswith sub (sub @ b)"
    by (simp add: startswith_def)
  then show ?thesis
    unfolding Cons by simp
qed

lemma contains_here: "contains sub (a @ sub @ b)"
  by (induction a) (simp_all add: contains_prefix)

lemma split_once_char: "c \<notin> set a \<Longrightarrow> split_once [c] (a @ c # r) = Some (a, r)"
  by (induction a) (auto simp: startswith_def)

lemma split_once_absent: "c \<notin> set a \<Longrightarrow> split_once [c] a = None"
  by (induction a) (auto simp: startswith_def)

lemma contains_absent: "c \<notin> set a \<Longrightarrow> \<not> contains [c] a"
  by (induction a) (auto simp: startswith_def)

lemma line_without_colon:
  "\<not> contains ''Parameters:'' line \<Longrightarrow> \<not> contains '': '' line \<Longrightarrow>
   parameter_lines (line # lines) st d pd = parameter_lines lines st d pd"
  by simp

lemma line_without_type:
  assumes "\<not> contains ''Parameters:'' (a @ '': '' @ b)" and "py_strip (a @ '': '' @ b) \<noteq> []"
      and "CHR '':'' \<notin> set a" and "CHR ''('' \<notin> set a"
  shows "parameter_lines ((a @ '': '' @ b) # lines) True d pd =
           parameter_lines lines True ('' '' @ b)
             (dict_set pd (py_strip a)
                (PDict [(''param_type'', PStr ''str''),
                        (''description'', PStr (py_strip ('' '' @ b))),
                        (''required'', PBool True)]))"
proof -
  have colon: "py_split1 '':'' (a @ '': '' @ b) = [a, '' '' @ b]"
    using split_once_char [OF assms(3), of "'' '' @ b"] by (simp add: py_split1_def)
  have paren: "py_split1 ''('' a = [a]" "\<not> contains ''('' a"
    using split_once_absent [OF assms(4)] contains_absent [OF assms(4)] by (simp_all add: py_split1_def)
  have str: "py_strip ''str'' = ''str''"
    by (simp add: py_strip_def strip_where_def is_space_def)
  have idx: "py_index [a, '' '' @ b] 0 = Ret a" "py_index [a, '' '' @ b] (Suc 0) = Ret ('' '' @ b)"
      "py_index [a] 0 = Ret a"
    by (simp_all add: py_index_def)
  show ?thesis
    using assms(1,2) contains_here [of "'': ''" a b]
    by (simp add: colon paren str idx rbind_Ret del: append.simps)
qed


text \<open>
  What \<^verbatim>\<open>Agent.prepare_tools\<close> returns: for each tool of the list, in order, the line
  \<^verbatim>\<open>Use the function '...' to: ...\<close> and the dictionary of the tool, joined with newlines.
\<close>

lemma describe_tool_value:
  assumes "list_all (\<lambda>kv. str_defined (snd kv)) params"
  shows "describe_tool (PDict [(''name'', PStr name), (''description'', PStr description),
                               (''parameters'', PDict params)]) =
         Ret (''Use the function '' @ sq @ name @ sq @ '' to: '' @ description @ nl @
              json_dumps_indent 0 (PDict [(''name'', PStr name), (''description'', PStr description),
                                          (''parameters'', PDict params)]))"
  using assms by (simp add: describe_tool_def py_getitem_def rbind_Ret del: json_dumps_indent.simps)

lemma descriptions_of_tools:
  "\<exists>infos ds.
     tools_info ts = Ret infos \<and> collect describe_tool infos = Ret ds \<and>
     list_all2 (\<lambda>t d. \<exists>description params.
                  tool_info t = Ret (PDict [(''name'', PStr (tool_name t)), (''description'', PStr description),
                                            (''parameters'', PDict params)]) \<and>
                  d = ''Use the function '' @ sq @ tool_name t @ sq @ '' to: '' @ description @ nl @
                      json_dumps_indent 0 (PDict [(''name'', PStr (tool_name t)),
                                                  (''description'', PStr description),
                                                  (''parameters'', PDict params)])) ts ds"
  (is "\<exists>infos ds. _ \<and> _ \<and> list_all2 ?P ts ds")
proof (induction ts)
  case Nil
  then show ?case by (simp add: tools_info_def)
next
  case (Cons t ts)
  obtain description params where t:
    "tool_info t = Ret (PDict [(''name'', PStr (tool_name t)), (''description'', PStr description),
                               (''parameters'', PDict params)])"
    "list_all (\<lambda>kv. str_defined (snd kv)) params"
    using tool_info_total by blast
  obtain infos ds where IH: "tools_info ts = Ret infos" "collect describe_tool infos = Ret ds" "list_all2 ?P ts ds"
    using Cons.IH by blast
  let ?info = "PDict [(''name'', PStr (tool_name t)), (''description'', PStr description),
                      (''parameters'', PDict params)]"
  let ?d = "''Use the function '' @ sq @ tool_name t @ sq @ '' to: '' @ description @ nl @
            json_dumps_indent 0 ?info"
  have a: "tools_info (t # ts) = Ret (?info # infos)"
    using t(1) IH(1) by (simp add: tools_info_def rbind_Ret)
  have b: "collect describe_tool (?info # infos) = Ret (?d # ds)"
    using IH(2) by (simp add: describe_tool_value [OF t(2)] rbind_Ret del: json_dumps_indent.simps)
  have "?P t ?d"
    using t(1) by blast
  then have c: "list_all2 ?P (t # ts) (?d # ds)"
    using IH(3) by simp
  show ?case
    using a b c by blast
qed

lemma Agent_prepare_tools_describes:
  "\<exists>ds. Agent_prepare_tools ts = Ret (intercalate nl ds) \<and>
     list_all2 (\<lambda>t d. \<exists>description params.
                  tool_info t = Ret (PDict [(''name'', PStr (tool_name t)), (''description'', PStr description),
                                            (''parameters'', PDict params)]) \<and>
                  d = ''Use the function '' @ sq @ tool_name t @ sq @ '' to: '' @ description @ nl @
                      json_dumps_indent 0 (PDict [(''name'', PStr (tool_name t)),
                                                  (''description'', PStr description),
                                                  (''parameters'', PDict params)])) ts ds"
  (is "\<exists>ds. _ \<and> list_all2 ?P ts ds")
proof -
  obtain infos ds where "tools_info ts = Ret infos" "collect describe_tool infos = Ret ds" "list_all2 ?P ts ds"
    using descriptions_of_tools [of ts] by blast
  then have "Agent_prepare_tools ts = Ret (intercalate nl ds) \<and> list_all2 ?P ts ds"
    by (simp add: Agent_prepare_tools_def rbind_Ret)
  then show ?thesis
    by blast
qed

text \<open>
  The dictionary of \<^verbatim>\<open>prepare_tools\<close> of the Mistral notebook: one key for each name, in the
  order in which the names first occur, with the documentation of the last tool of that
  name.
\<close>

lemma dict_set_new: "k \<notin> fst ` set d \<Longrightarrow> dict_set d k v = d @ [(k, v)]"
  by (induction d) auto

lemma dict_set_old:
  "k \<in> set ks \<Longrightarrow> distinct ks \<Longrightarrow>
   dict_set (map (\<lambda>n. (n, f n)) ks) k v = map (\<lambda>n. (n, if n = k then v else f n)) ks"
  by (induction ks) auto

lemma tools_dict_closed:
  "foldl (\<lambda>d t. dict_set d (tool_name t) (tool_doc t)) [] (ts :: tool list) =
     map (\<lambda>n. (n, tool_doc (last (filter (\<lambda>t. tool_name t = n) ts))))
       (rev (remdups (rev (map tool_name ts))))"
proof (induction ts rule: rev_induct)
  case Nil
  then show ?case by simp
next
  case (snoc t ts)
  define ks where "ks = rev (remdups (rev (map tool_name ts)))"
  define g where "g = (\<lambda>(ts :: tool list) n. tool_doc (last (filter (\<lambda>t. tool_name t = n) ts)))"
  have ks: "distinct ks" "set ks = tool_name ` set ts"
    by (simp_all add: ks_def)
  have step: "foldl (\<lambda>d t. dict_set d (tool_name t) (tool_doc t)) [] (ts @ [t]) =
              dict_set (map (\<lambda>n. (n, g ts n)) ks) (tool_name t) (tool_doc t)"
    using snoc.IH by (simp add: ks_def g_def)
  show ?case
  proof (cases "tool_name t \<in> set ks")
    case True
    have e1: "dict_set (map (\<lambda>n. (n, g ts n)) ks) (tool_name t) (tool_doc t) =
          map (\<lambda>n. (n, if n = tool_name t then tool_doc t else g ts n)) ks"
      by (rule dict_set_old [OF True ks(1)])
    have e2: "map (\<lambda>n. (n, if n = tool_name t then tool_doc t else g ts n)) ks =
              map (\<lambda>n. (n, g (ts @ [t]) n)) ks"
      by (rule map_cong) (auto simp: g_def)
    have e3: "rev (remdups (rev (map tool_name (ts @ [t])))) = ks"
      using True ks(2) by (simp add: ks_def)
    have "foldl (\<lambda>d t. dict_set d (tool_name t) (tool_doc t)) [] (ts @ [t]) =
          map (\<lambda>n. (n, g (ts @ [t]) n)) ks"
      unfolding step e1 e2 ..
    then show ?thesis
      unfolding e3 g_def .
  next
    case False
    then have "tool_name t \<notin> fst ` set (map (\<lambda>n. (n, g ts n)) ks)"
      by (simp add: image_image)
    then have e1: "dict_set (map (\<lambda>n. (n, g ts n)) ks) (tool_name t) (tool_doc t) =
          map (\<lambda>n. (n, g ts n)) ks @ [(tool_name t, tool_doc t)]"
      by (rule dict_set_new)
    have e2: "map (\<lambda>n. (n, g ts n)) ks = map (\<lambda>n. (n, g (ts @ [t]) n)) ks"
      using False by (intro map_cong) (auto simp: g_def)
    have e3: "rev (remdups (rev (map tool_name (ts @ [t])))) = ks @ [tool_name t]"
      using False ks(2) by (simp add: ks_def)
    have "foldl (\<lambda>d t. dict_set d (tool_name t) (tool_doc t)) [] (ts @ [t]) =
          map (\<lambda>n. (n, g ts n)) ks @ [(tool_name t, tool_doc t)]"
      unfolding step e1 ..
    then have "foldl (\<lambda>d t. dict_set d (tool_name t) (tool_doc t)) [] (ts @ [t]) =
          map (\<lambda>n. (n, g (ts @ [t]) n)) ks @ [(tool_name t, tool_doc t)]"
      unfolding e2 .
    then show ?thesis
      unfolding e3 by (simp add: g_def)
  qed
qed

lemma prepare_tools_closed:
  "prepare_tools ts =
     intercalate nl
       (map (\<lambda>n. n @ '': '' @ dq @
                  (case tool_doc (last (filter (\<lambda>t. tool_name t = n) ts)) of
                     None \<Rightarrow> ''None'' | Some desc \<Rightarrow> desc) @ dq)
          (rev (remdups (rev (map tool_name ts)))))"
  unfolding prepare_tools_def Let_def tools_dict_closed by (simp add: comp_def)

lemma tool_info_lookup:
  "tool_info lookup_word =
     Ret (PDict [(''name'', PStr ''lookup''), (''description'', PStr ''Look up a word.''),
                 (''parameters'', PDict [])])"
  "tool_info lookup_number =
     Ret (PDict [(''name'', PStr ''lookup''), (''description'', PStr ''Look up a number.''),
                 (''parameters'', PDict [])])"
  by code_simp+

lemma tool_info_translate:
  "tool_info translate =
     Ret (PDict [(''name'', PStr ''translate''),
                 (''description'', PStr '' the word to translate''),
                 (''parameters'',
                  PDict [(''word'', PDict [(''param_type'', PStr ''str''),
                                          (''description'', PStr ''the word to translate''),
                                          (''required'', PBool True)])])])"
  by code_simp

text \<open>
  Claim C7 as stated fails: two tools share the name \<^verbatim>\<open>lookup\<close>, and
  \<^verbatim>\<open>Agent.prepare_tools\<close> neither fails nor drops one.  Both are described, in the order of
  the list.
\<close>

theorem duplicate_names_are_kept:
  "tools_info [lookup_word, lookup_number] =
     Ret [PDict [(''name'', PStr ''lookup''), (''description'', PStr ''Look up a word.''),
                 (''parameters'', PDict [])],
          PDict [(''name'', PStr ''lookup''), (''description'', PStr ''Look up a number.''),
                 (''parameters'', PDict [])]] \<and>
   is_Ret (Agent_prepare_tools [lookup_word, lookup_number])"
  using Agent_prepare_tools_total by (simp add: tools_info_def tool_info_lookup rbind_Ret)

text \<open>
  Claim C7, amended.  No name is checked when the descriptions are built, and nothing
  fails.  \<^verbatim>\<open>Agent.prepare_tools\<close> returns the descriptions of all the tools of the list, in
  order, each with the name of its tool, so two tools that share a name are both kept.  The
  function \<^verbatim>\<open>prepare_tools\<close> of the Mistral notebook returns one line for each name, in the
  order in which the names first occur, with the documentation of the last tool of that
  name: of two tools that share a name, only the documentation of the second is rendered.
\<close>

theorem catalog_keeps_every_tool:
  "(\<exists>infos. tools_info ts = Ret infos \<and>
      map (\<lambda>info. py_getitem info ''name'') infos = map (\<lambda>t. Ret (PStr (tool_name t))) ts) \<and>
   (\<exists>ds. Agent_prepare_tools ts = Ret (intercalate nl ds) \<and>
      list_all2 (\<lambda>t d. \<exists>description params.
                   tool_info t = Ret (PDict [(''name'', PStr (tool_name t)), (''description'', PStr description),
                                             (''parameters'', PDict params)]) \<and>
                   d = ''Use the function '' @ sq @ tool_name t @ sq @ '' to: '' @ description @ nl @
                       json_dumps_indent 0 (PDict [(''name'', PStr (tool_name t)),
                                                   (''description'', PStr description),
                                                   (''parameters'', PDict params)])) ts ds) \<and>
   prepare_tools ts =
     intercalate nl
       (map (\<lambda>n. n @ '': '' @ dq @
                  (case tool_doc (last (filter (\<lambda>t. tool_name t = n) ts)) of
                     None \<Rightarrow> ''None'' | Some desc \<Rightarrow> desc) @ dq)
          (rev (remdups (rev (map tool_name ts))))) \<and>
   (tool_name t1 = tool_name t2 \<longrightarrow> prepare_tools [t1, t2] = prepare_tools [t2])"
proof -
  have "\<exists>infos. tools_info ts = Ret infos \<and>
      map (\<lambda>info. py_getitem info ''name'') infos = map (\<lambda>t. Ret (PStr (tool_name t))) ts"
    using tools_info_total [of ts] by blast
  moreover have "tool_name t1 = tool_name t2 \<longrightarrow> prepare_tools [t1, t2] = prepare_tools [t2]"
    by (auto simp: prepare_tools_def)
  ultimately show ?thesis
    using Agent_prepare_tools_describes [of ts] prepare_tools_closed [of ts] by blast
qed

theorem catalog_keeps_every_tool_witness:
  "Agent_prepare_tools [lookup_word, lookup_number] =
     Ret (''Use the function '' @ sq @ ''lookup'' @ sq @ '' to: Look up a word.'' @ nl @
          json_dumps_indent 0 (PDict [(''name'', PStr ''lookup''), (''description'', PStr ''Look up a word.''),
                                      (''parameters'', PDict [])]) @ nl @
          ''Use the function '' @ sq @ ''lookup'' @ sq @ '' to: Look up a number.'' @ nl @
          json_dumps_indent 0 (PDict [(''name'', PStr ''lookup''), (''description'', PStr ''Look up a number.''),
                                      (''parameters'', PDict [])])) \<and>
   prepare_tools [lookup_word, lookup_number] = ''lookup: '' @ dq @ ''Look up a number.'' @ dq \<and>
   prepare_tools [lookup_word, lookup_number] = prepare_tools [lookup_number]"
proof -
  note T = catalog_keeps_every_tool [of "[lookup_word, lookup_number]" lookup_word lookup_number]
  have names: "tool_name lookup_word = ''lookup''" "tool_name lookup_number = ''lookup''"
      "tool_doc lookup_number = Some ''Look up a number.''"
    by (simp_all add: lookup_word_def lookup_number_def)
  obtain ds where ds: "Agent_prepare_tools [lookup_word, lookup_number] = Ret (intercalate nl ds)"
    "list_all2 (\<lambda>t d. \<exists>description params.
                   tool_info t = Ret (PDict [(''name'', PStr (tool_name t)), (''description'', PStr description),
                                             (''parameters'', PDict params)]) \<and>
                   d = ''Use the function '' @ sq @ tool_name t @ sq @ '' to: '' @ description @ nl @
                       json_dumps_indent 0 (PDict [(''name'', PStr (tool_name t)),
                                                   (''description'', PStr description),
                                                   (''parameters'', PDict params)]))
       [lookup_word, lookup_number] ds"
    using T [THEN conjunct2, THEN conjunct1] by blast
  from ds(2) have "ds =
      [''Use the function '' @ sq @ ''lookup'' @ sq @ '' to: '' @ ''Look up a word.'' @ nl @
       json_dumps_indent 0 (PDict [(''name'', PStr ''lookup''), (''description'', PStr ''Look up a word.''),
                                   (''parameters'', PDict [])]),
       ''Use the function '' @ sq @ ''lookup'' @ sq @ '' to: '' @ ''Look up a number.'' @ nl @
       json_dumps_indent 0 (PDict [(''name'', PStr ''lookup''), (''description'', PStr ''Look up a number.''),
                                   (''parameters'', PDict [])])]"
    by (auto simp: list_all2_Cons1 tool_info_lookup names simp del: json_dumps_indent.simps)
  then have t1: "Agent_prepare_tools [lookup_word, lookup_number] =
     Ret (''Use the function '' @ sq @ ''lookup'' @ sq @ '' to: Look up a word.'' @ nl @
          json_dumps_indent 0 (PDict [(''name'', PStr ''lookup''), (''description'', PStr ''Look up a word.''),
                                      (''parameters'', PDict [])]) @ nl @
          ''Use the function '' @ sq @ ''lookup'' @ sq @ '' to: Look up a number.'' @ nl @
          json_dumps_indent 0 (PDict [(''name'', PStr ''lookup''), (''description'', PStr ''Look up a number.''),
                                      (''parameters'', PDict [])]))"
    using ds(1) by (simp del: json_dumps_indent.simps)
  have t2: "prepare_tools [lookup_word, lookup_number] = ''lookup: '' @ dq @ ''Look up a number.'' @ dq"
    using T [THEN conjunct2, THEN conjunct2, THEN conjunct1] by (simp add: names)
  have t3: "prepare_tools [lookup_word, lookup_number] = prepare_tools [lookup_number]"
    using T [THEN conjunct2, THEN conjunct2, THEN conjunct2] by (simp add: names)
  show ?thesis
    by (intro conjI t1 t2 t3)
qed

text \<open>
  Claim C9 as stated fails: the documentation of \<^verbatim>\<open>translate\<close> has the parameter line
  \<^verbatim>\<open>word: the word to translate\<close>, which has no type in parentheses.  The parameter is not
  left out: it is described with the type \<^verbatim>\<open>str\<close>.  The line without a colon is left out.
\<close>

theorem untyped_parameter_is_kept:
  "tool_info translate =
     Ret (PDict [(''name'', PStr ''translate''),
                 (''description'', PStr '' the word to translate''),
                 (''parameters'',
                  PDict [(''word'', PDict [(''param_type'', PStr ''str''),
                                          (''description'', PStr ''the word to translate''),
                                          (''required'', PBool True)])])])"
  by (rule tool_info_translate)

text \<open>
  Claim C9, amended.  Reading the documentation of a tool never raises, whatever the
  documentation is, and \<^verbatim>\<open>Agent.prepare_tools\<close> returns, for every list of tools, the
  descriptions of all the tools of the list, in order, each with the name of its tool.  A
  line of the parameters section without a colon followed by a space is left out.  A line
  with the colon and without a type in parentheses is kept: the parameter gets the type
  \<^verbatim>\<open>str\<close>.
\<close>

theorem malformed_documentation_is_tolerated:
  "(\<exists>description params.
      tool_info t = Ret (PDict [(''name'', PStr (tool_name t)),
                               (''description'', PStr description),
                               (''parameters'', PDict params)])) \<and>
   is_Ret (Agent_prepare_tools ts) \<and>
   (\<exists>infos. tools_info ts = Ret infos \<and> length infos = length ts) \<and>
   (\<exists>ds. Agent_prepare_tools ts = Ret (intercalate nl ds) \<and>
      list_all2 (\<lambda>t d. \<exists>description params.
                   tool_info t = Ret (PDict [(''name'', PStr (tool_name t)), (''description'', PStr description),
                                             (''parameters'', PDict params)]) \<and>
                   d = ''Use the function '' @ sq @ tool_name t @ sq @ '' to: '' @ description @ nl @
                       json_dumps_indent 0 (PDict [(''name'', PStr (tool_name t)),
                                                   (''description'', PStr description),
                                                   (''parameters'', PDict params)])) ts ds) \<and>
   (\<not> contains ''Parameters:'' line \<longrightarrow> \<not> contains '': '' line \<longrightarrow>
      parameter_lines (line # lines) st d pd = parameter_lines lines st d pd) \<and>
   (\<not> contains ''Parameters:'' (a @ '': '' @ b) \<longrightarrow> py_strip (a @ '': '' @ b) \<noteq> [] \<longrightarrow>
    CHR '':'' \<notin> set a \<longrightarrow> CHR ''('' \<notin> set a \<longrightarrow>
      parameter_lines ((a @ '': '' @ b) # lines) True d pd =
        parameter_lines lines True ('' '' @ b)
          (dict_set pd (py_strip a)
             (PDict [(''param_type'', PStr ''str''),
                     (''description'', PStr (py_strip ('' '' @ b))),
                     (''required'', PBool True)])))"
proof -
  obtain infos where "tools_info ts = Ret infos"
      "map (\<lambda>info. py_getitem info ''name'') infos = map (\<lambda>t. Ret (PStr (tool_name t))) ts"
    using tools_info_total by blast
  then have "\<exists>infos. tools_info ts = Ret infos \<and> length infos = length ts"
    by (metis length_map)
  then show ?thesis
    using tool_info_total [of t] Agent_prepare_tools_total [of ts] Agent_prepare_tools_describes [of ts]
      line_without_colon line_without_type
    by blast
qed

theorem malformed_documentation_is_tolerated_witness:
  "is_Ret (tool_info translate) \<and>
   is_Ret (Agent_prepare_tools [translate, reverse_string_tool]) \<and>
   (\<exists>infos. tools_info [translate, reverse_string_tool] = Ret infos \<and> length infos = 2) \<and>
   (\<exists>rest.
      Agent_prepare_tools [translate, reverse_string_tool] =
        Ret (''Use the function '' @ sq @ ''translate'' @ sq @ '' to:  the word to translate'' @ nl @
             json_dumps_indent 0
               (PDict [(''name'', PStr ''translate''),
                       (''description'', PStr '' the word to translate''),
                       (''parameters'',
                        PDict [(''word'', PDict [(''param_type'', PStr ''str''),
                                                (''description'', PStr ''the word to translate''),
                                                (''required'', PBool True)])])]) @ nl @
             ''Use the function '' @ sq @ ''reverse_string'' @ sq @ '' to: '' @ rest)) \<and>
   parameter_lines [''language (str) the language of the word''] True ''Translate a word.'' [] =
     Ret (''Translate a word.'', []) \<and>
   parameter_lines [''word: the word to translate''] True ''Translate a word.'' [] =
     Ret ('' the word to translate'',
          [(''word'', PDict [(''param_type'', PStr ''str''),
                            (''description'', PStr ''the word to translate''),
                            (''required'', PBool True)])])"
proof -
  have a: "\<not> contains ''Parameters:'' ''language (str) the language of the word''"
      "\<not> contains '': '' ''language (str) the language of the word''"
    by code_simp+
  have b: "\<not> contains ''Parameters:'' (''word'' @ '': '' @ ''the word to translate'')"
      "py_strip (''word'' @ '': '' @ ''the word to translate'') \<noteq> []"
      "CHR '':'' \<notin> set ''word''" "CHR ''('' \<notin> set ''word''"
    by code_simp+
  have c: "py_strip ''word'' = ''word''"
      "py_strip '' the word to translate'' = ''the word to translate''"
    by code_simp+
  have e: "''word'' @ '': '' @ ''the word to translate'' = ''word: the word to translate''"
      "'' '' @ ''the word to translate'' = '' the word to translate''"
    by simp_all
  have names: "tool_name translate = ''translate''" "tool_name reverse_string_tool = ''reverse_string''"
    by (simp_all add: translate_def reverse_string_tool_def)
  note T = malformed_documentation_is_tolerated [of translate "[translate, reverse_string_tool]"
      "''language (str) the language of the word''" "[]" True "''Translate a word.''" "[]"
      "''word''" "''the word to translate''"]
  have t1: "is_Ret (tool_info translate)"
    using T [THEN conjunct1] by (auto simp: is_Ret_def)
  have t2: "is_Ret (Agent_prepare_tools [translate, reverse_string_tool])"
    by (rule T [THEN conjunct2, THEN conjunct1])
  have t3: "\<exists>infos. tools_info [translate, reverse_string_tool] = Ret infos \<and> length infos = 2"
    using T [THEN conjunct2, THEN conjunct2, THEN conjunct1] by (simp add: numeral_2_eq_2)
  obtain ds where ds: "Agent_prepare_tools [translate, reverse_string_tool] = Ret (intercalate nl ds)"
    "list_all2 (\<lambda>t d. \<exists>description params.
                   tool_info t = Ret (PDict [(''name'', PStr (tool_name t)), (''description'', PStr description),
                                             (''parameters'', PDict params)]) \<and>
                   d = ''Use the function '' @ sq @ tool_name t @ sq @ '' to: '' @ description @ nl @
                       json_dumps_indent 0 (PDict [(''name'', PStr (tool_name t)),
                                                   (''description'', PStr description),
                                                   (''parameters'', PDict params)]))
       [translate, reverse_string_tool] ds"
    using T [THEN conjunct2, THEN conjunct2, THEN conjunct2, THEN conjunct1] by blast
  from ds(2) obtain rest where "ds =
      [''Use the function '' @ sq @ ''translate'' @ sq @ '' to: '' @ '' the word to translate'' @ nl @
       json_dumps_indent 0
         (PDict [(''name'', PStr ''translate''),
                 (''description'', PStr '' the word to translate''),
                 (''parameters'',
                  PDict [(''word'', PDict [(''param_type'', PStr ''str''),
                                          (''description'', PStr ''the word to translate''),
                                          (''required'', PBool True)])])]),
       ''Use the function '' @ sq @ ''reverse_string'' @ sq @ '' to: '' @ rest]"
    by (auto simp: list_all2_Cons1 tool_info_translate names simp del: json_dumps_indent.simps)
  then have t4: "\<exists>rest.
      Agent_prepare_tools [translate, reverse_string_tool] =
        Ret (''Use the function '' @ sq @ ''translate'' @ sq @ '' to:  the word to translate'' @ nl @
             json_dumps_indent 0
               (PDict [(''name'', PStr ''translate''),
                       (''description'', PStr '' the word to translate''),
                       (''parameters'',
                        PDict [(''word'', PDict [(''param_type'', PStr ''str''),
                                                (''description'', PStr ''the word to translate''),
                                                (''required'', PBool True)])])]) @ nl @
             ''Use the function '' @ sq @ ''reverse_string'' @ sq @ '' to: '' @ rest)"
    using ds(1) by (auto simp del: json_dumps_indent.simps)
  have "parameter_lines [''language (str) the language of the word''] True ''Translate a word.'' [] =
        parameter_lines [] True ''Translate a word.'' []"
    by (rule T [THEN conjunct2, THEN conjunct2, THEN conjunct2, THEN conjunct2, THEN conjunct1, rule_format, OF a])
  then have t5: "parameter_lines [''language (str) the language of the word''] True ''Translate a word.'' [] =
        Ret (''Translate a word.'', [])"
    by (simp only: parameter_lines.simps(1))
  have "parameter_lines [''word'' @ '': '' @ ''the word to translate''] True ''Translate a word.'' [] =
        parameter_lines [] True ('' '' @ ''the word to translate'')
          (dict_set [] (py_strip ''word'')
             (PDict [(''param_type'', PStr ''str''),
                     (''description'', PStr (py_strip ('' '' @ ''the word to translate''))),
                     (''required'', PBool True)]))"
    by (rule T [THEN conjunct2, THEN conjunct2, THEN conjunct2, THEN conjunct2, THEN conjunct2, rule_format, OF b])
  then have t6: "parameter_lines [''word: the word to translate''] True ''Translate a word.'' [] =
     Ret ('' the word to translate'',
          [(''word'', PDict [(''param_type'', PStr ''str''),
                            (''description'', PStr ''the word to translate''),
                            (''required'', PBool True)])])"
    by (simp only: parameter_lines.simps(1) e c dict_set.simps(1))
  show ?thesis
    by (intro conjI t1 t2 t3 t4 t5 t6)
qed

text \<open>The agent of the notebook is what \<^verbatim>\<open>Agent(tools=tools, model_config=ollama_config)\<close> constructs.\<close>

lemma notebook_agent_constructed: "Agent_init notebook_tools ollama_config = Ret notebook_agent"
proof -
  obtain d where d: "Agent_prepare_tools notebook_tools = Ret d"
    using Agent_prepare_tools_total [of notebook_tools] by (auto simp: is_Ret_def split: result.splits)
  then have "notebook_tool_descriptions = d"
    by (simp add: notebook_tool_descriptions_def)
  then show ?thesis
    using d by (simp add: Agent_init_def notebook_agent_def rbind_Ret)
qed

end
